theory Spec2Isabelle
  imports Main "HOL-Library.AList"
begin

section \<open>Building the load balancer specification of an ingress group\<close>

text \<open>
  This theory embeds \<^verbatim>\<open>pkg/ingress/model_build_load_balancer.go\<close>: the functions of
  \<^verbatim>\<open>defaultModelBuildTask\<close> that merge the annotations of the members of an ingress group
  into one \<^verbatim>\<open>LoadBalancerSpec\<close>, generate the load balancer's name, and resolve subnet and
  security group names to IDs.

  Go strings are byte sequences, and so are Isabelle's (\<open>string\<close> is \<open>char list\<close>, a
  \<open>char\<close> is one byte). A Go slice is a list; an empty slice and a nil slice are the same
  list here (\<^verbatim>\<open>cmp.Equal\<close> tells them apart, so the annotation parser is taken to
  return one kind only). A Go
  \<^verbatim>\<open>map[string]string\<close> is an association list: the order of the list stands for the
  order in which \<^verbatim>\<open>range\<close> happens to visit the map, which Go leaves open. A function
  returning \<^verbatim>\<open>(v, error)\<close> returns \<open>error + v\<close>, with \<open>Inl\<close> for the error.
\<close>

subsection \<open>Errors\<close>

text \<open>
  One constructor for each \<^verbatim>\<open>errors.Errorf\<close> of the file, carrying the values its message
  prints, and \<open>Upstream\<close> for the errors that the collaborators (annotation parser, subnet
  discovery, EC2 client, managed security group builder) return and that the file hands on
  unchanged.
\<close>

datatype error =
    ConflictingScheme "string set"
  | UnknownScheme string
  | ConflictingIPAddressType "string set"
  | UnknownIPAddressType string
  | InsufficientSubnets "string list"
  | ConflictingSubnets "string list" "string list"
  | ConflictingSecurityGroups "string list" "string list"
  | ConflictingLoadBalancerAttribute string string string
  | ConflictingTag string string string
  | CouldntFindAllSubnets "string list" "string list"
  | CouldntFindAllSecurityGroups "string list" "string list"
  | Upstream string

subsection \<open>Data model\<close>

text \<open>
  The constants of \<^verbatim>\<open>pkg/model/elbv2\<close> that the file uses. That package is not among the
  sources at hand; the values are those of the ELBv2 API. No theorem below depends on the
  values.
\<close>

type_synonym LoadBalancerScheme = string
type_synonym IPAddressType = string

definition LoadBalancerSchemeInternetFacing :: LoadBalancerScheme where
  "LoadBalancerSchemeInternetFacing = ''internet-facing''"

definition LoadBalancerSchemeInternal :: LoadBalancerScheme where
  "LoadBalancerSchemeInternal = ''internal''"

definition IPAddressTypeIPV4 :: IPAddressType where
  "IPAddressTypeIPV4 = ''ipv4''"

definition IPAddressTypeDualStack :: IPAddressType where
  "IPAddressTypeDualStack = ''dualstack''"

definition LoadBalancerTypeApplication :: string where
  "LoadBalancerTypeApplication = ''application''"

text \<open>The annotation suffixes of \<^verbatim>\<open>pkg/annotations\<close> that the file passes to the parser.\<close>

datatype AnnotationSuffix =
    IngressSuffixScheme
  | IngressSuffixIPAddressType
  | IngressSuffixSubnets
  | IngressSuffixSecurityGroups
  | IngressSuffixLoadBalancerAttributes
  | IngressSuffixTags

text \<open>
  Modelled from the spec: the identity of a group (\<^verbatim>\<open>GroupID\<close>, with its methods
  \<^verbatim>\<open>IsExplicit\<close> and \<^verbatim>\<open>String\<close>) is declared outside the sources at hand. The spec
  describes it as an explicit name or a namespace and name pair, plus a flag telling the two
  apart, with a canonical string form. The flag and the string form are kept as the fields
  \<open>IsExplicit\<close> and \<open>IDString\<close>, so that nothing is assumed about how they are computed.
\<close>

record GroupID =
  Namespace :: string
  Name :: string
  IsExplicit :: bool
  IDString :: string

text \<open>
  A member of the group is an ingress with its annotations. The annotations are read only
  through the annotation parser, so their type is left open (\<open>'a\<close>).
\<close>

record 'a Ingress =
  Annotations :: 'a

record 'a Group =
  ID :: GroupID
  Members :: "'a Ingress list"

text \<open>
  Modelled from the spec: the annotation parser (\<^verbatim>\<open>pkg/annotations\<close>) is not among the
  sources at hand. \<^verbatim>\<open>ParseStringAnnotation\<close> and \<^verbatim>\<open>ParseStringSliceAnnotation\<close> report
  whether the annotation exists and store its value: here they return \<open>Some\<close> of the value
  or \<open>None\<close>. \<^verbatim>\<open>ParseStringMapAnnotation\<close> can fail on a malformed map; the file ignores
  whether the annotation exists and ranges over the map, which is empty when it does not.
\<close>

record 'a AnnotationParser =
  ParseStringAnnotation :: "AnnotationSuffix \<Rightarrow> 'a \<Rightarrow> string option"
  ParseStringSliceAnnotation :: "AnnotationSuffix \<Rightarrow> 'a \<Rightarrow> string list option"
  ParseStringMapAnnotation :: "AnnotationSuffix \<Rightarrow> 'a \<Rightarrow> error + (string \<times> string) list"

text \<open>
  The types of the AWS SDK (\<^verbatim>\<open>ec2sdk\<close>) with the fields this development speaks of. Their
  string fields are pointers, read through \<^verbatim>\<open>awssdk.StringValue\<close>, which reads a nil pointer
  as the empty string.
\<close>

record Subnet =
  SubnetId :: "string option"
  AvailabilityZone :: "string option"

record SecurityGroup =
  GroupId :: "string option"

record Filter =
  FilterName :: string
  FilterValues :: "string list"

record DescribeSubnetsInput =
  SubnetIds :: "string list"
  SubnetFilters :: "Filter list"

record DescribeSecurityGroupsInput =
  GroupIds :: "string list"
  GroupFilters :: "Filter list"

definition StringValue :: "string option \<Rightarrow> string" where
  "StringValue p = (case p of None \<Rightarrow> [] | Some s \<Rightarrow> s)"

text \<open>
  The collaborators of the task. Each is a function of its request; a call returns either
  an error or the entries found.
\<close>

record EC2Client =
  DescribeSubnetsAsList :: "DescribeSubnetsInput \<Rightarrow> error + Subnet list"
  DescribeSecurityGroupsAsList :: "DescribeSecurityGroupsInput \<Rightarrow> error + SecurityGroup list"

record SubnetsResolver =
  DiscoverSubnets :: "LoadBalancerScheme \<Rightarrow> error + Subnet list"

text \<open>
  The model of the output (\<^verbatim>\<open>pkg/model/core\<close> and \<^verbatim>\<open>pkg/model/elbv2\<close>). A
  \<^verbatim>\<open>core.StringToken\<close> is either a literal or the group ID of the managed security group,
  known only once that group exists.
\<close>

datatype StringToken =
    LiteralStringToken string
  | ManagedGroupIDToken string

record ManagedSecurityGroup =
  GroupID :: StringToken

record SubnetMapping =
  SubnetID :: string

record LoadBalancerAttribute =
  Key :: string
  Value :: string

text \<open>
  \<^verbatim>\<open>elbv2model.LoadBalancerSpec\<close>. Its fields carry the prefix \<open>spec\<close>, since \<open>Name\<close> is
  a field of \<open>GroupID\<close> already. \<open>Scheme\<close> and \<open>IPAddressType\<close> are pointers in Go.
\<close>

record LoadBalancerSpec =
  specName :: string
  specType :: string
  specScheme :: "LoadBalancerScheme option"
  specIPAddressType :: "IPAddressType option"
  specSubnetMappings :: "SubnetMapping list"
  specSecurityGroups :: "StringToken list"
  specLoadBalancerAttributes :: "LoadBalancerAttribute list"
  specTags :: "(string \<times> string) list"

text \<open>The zero value \<^verbatim>\<open>elbv2model.LoadBalancerSpec{}\<close>, returned next to every error.\<close>

definition emptyLoadBalancerSpec :: LoadBalancerSpec where
  "emptyLoadBalancerSpec =
     \<lparr>specName = [], specType = [], specScheme = None, specIPAddressType = None,
      specSubnetMappings = [], specSecurityGroups = [], specLoadBalancerAttributes = [],
      specTags = []\<rparr>"

text \<open>
  \<^verbatim>\<open>defaultModelBuildTask\<close>, with the fields the file reads. The method
  \<^verbatim>\<open>buildManagedSecurityGroup\<close> is defined in another file of the package and is taken as
  a field; \<open>'l\<close> is the type of \<^verbatim>\<open>listenPortConfigByPort\<close>, which the file only hands on.
\<close>

record ('a, 'l) defaultModelBuildTask =
  clusterName :: string
  vpcID :: string
  ingGroup :: "'a Group"
  annotationParser :: "'a AnnotationParser"
  subnetsResolver :: SubnetsResolver
  ec2Client :: EC2Client
  defaultScheme :: LoadBalancerScheme
  defaultIPAddressType :: IPAddressType
  buildManagedSecurityGroup :: "'l \<Rightarrow> IPAddressType \<Rightarrow> error + ManagedSecurityGroup"

subsection \<open>The name of the load balancer\<close>

text \<open>
  \<^verbatim>\<open>invalidLoadBalancerNamePattern\<close> is the regular expression \<^verbatim>\<open>[[:^alnum:]]\<close>: it matches
  one character that is not an ASCII letter or digit. A byte of a character beyond ASCII is
  never a letter or digit, so replacing every match by the empty string removes exactly the
  bytes that are not ASCII letters or digits.
\<close>

definition isAlnum :: "char \<Rightarrow> bool" where
  "isAlnum c =
     (let n = (of_char c :: nat)
      in (48 \<le> n \<and> n \<le> 57) \<or> (65 \<le> n \<and> n \<le> 90) \<or> (97 \<le> n \<and> n \<le> 122))"

definition invalidLoadBalancerNamePattern :: "char \<Rightarrow> bool" where
  "invalidLoadBalancerNamePattern c = (\<not> isAlnum c)"

primrec ReplaceAllString :: "(char \<Rightarrow> bool) \<Rightarrow> string \<Rightarrow> string \<Rightarrow> string" where
  "ReplaceAllString pat [] repl = []"
| "ReplaceAllString pat (c # s) repl =
     (if pat c then repl @ ReplaceAllString pat s repl else c # ReplaceAllString pat s repl)"

text \<open>\<^verbatim>\<open>hex.EncodeToString\<close>: two lower-case hexadecimal digits for each byte.\<close>

definition hextable :: string where
  "hextable = ''0123456789abcdef''"

definition EncodeToString :: "string \<Rightarrow> string" where
  "EncodeToString bs =
     concat (map (\<lambda>b. [hextable ! ((of_char b :: nat) div 16), hextable ! ((of_char b :: nat) mod 16)]) bs)"

text \<open>
  The verb \<^verbatim>\<open>%.Ns\<close> of \<^verbatim>\<open>fmt.Sprintf\<close> prints at most the first \<open>N\<close> characters of
  its argument. It is applied to strings of ASCII letters and digits only, where characters
  and bytes coincide.
\<close>

definition precision :: "nat \<Rightarrow> string \<Rightarrow> string" where
  "precision n s = take n s"

text \<open>
  \<^verbatim>\<open>buildLoadBalancerName\<close>. The digest \<^verbatim>\<open>crypto/sha256\<close> belongs to Go's library and is
  the parameter \<open>sha256\<close>: a function from the bytes written to the digest's bytes. The three
  writes to the hash are one write of the concatenation.
\<close>

definition buildLoadBalancerName ::
  "(string \<Rightarrow> string) \<Rightarrow> ('a, 'l) defaultModelBuildTask \<Rightarrow> LoadBalancerScheme \<Rightarrow> string" where
  "buildLoadBalancerName sha256 t scheme =
     (let uuid = EncodeToString (sha256 (clusterName t @ IDString (ID (ingGroup t)) @ scheme))
      in if IsExplicit (ID (ingGroup t))
         then (let payload = ReplaceAllString invalidLoadBalancerNamePattern (Name (ID (ingGroup t))) []
               in ''k8s-'' @ precision 17 payload @ ''-'' @ precision 10 uuid)
         else (let sanitizedNamespace =
                     ReplaceAllString invalidLoadBalancerNamePattern (Namespace (ID (ingGroup t))) [];
                   sanitizedName =
                     ReplaceAllString invalidLoadBalancerNamePattern (Name (ID (ingGroup t))) []
               in ''k8s-'' @ precision 8 sanitizedNamespace @ ''-'' @ precision 8 sanitizedName
                    @ ''-'' @ precision 10 uuid))"

subsection \<open>Single-valued fields: scheme and IP address type\<close>

text \<open>
  The loop over the members that inserts every raw value found into a \<^verbatim>\<open>sets.String\<close>;
  a member without the annotation is skipped.
\<close>

primrec collectStrings ::
  "'a AnnotationParser \<Rightarrow> AnnotationSuffix \<Rightarrow> 'a Ingress list \<Rightarrow> string set \<Rightarrow> string set" where
  "collectStrings p sfx [] acc = acc"
| "collectStrings p sfx (ing # ings) acc =
     (case ParseStringAnnotation p sfx (Annotations ing) of
        None \<Rightarrow> collectStrings p sfx ings acc
      | Some raw \<Rightarrow> collectStrings p sfx ings (insert raw acc))"

text \<open>
  \<^verbatim>\<open>PopAny\<close> takes some element of the set; it is called on sets of one element only.
\<close>

definition buildLoadBalancerScheme :: "('a, 'l) defaultModelBuildTask \<Rightarrow> error + LoadBalancerScheme" where
  "buildLoadBalancerScheme t =
     (let explicitSchemes =
            collectStrings (annotationParser t) IngressSuffixScheme (Members (ingGroup t)) {}
      in if card explicitSchemes = 0 then Inr (defaultScheme t)
         else if card explicitSchemes > 1 then Inl (ConflictingScheme explicitSchemes)
         else (let rawScheme = the_elem explicitSchemes
               in if rawScheme = LoadBalancerSchemeInternetFacing
                  then Inr LoadBalancerSchemeInternetFacing
                  else if rawScheme = LoadBalancerSchemeInternal
                  then Inr LoadBalancerSchemeInternal
                  else Inl (UnknownScheme rawScheme)))"

definition buildLoadBalancerIPAddressType :: "('a, 'l) defaultModelBuildTask \<Rightarrow> error + IPAddressType" where
  "buildLoadBalancerIPAddressType t =
     (let explicitIPAddressTypes =
            collectStrings (annotationParser t) IngressSuffixIPAddressType (Members (ingGroup t)) {}
      in if card explicitIPAddressTypes = 0 then Inr (defaultIPAddressType t)
         else if card explicitIPAddressTypes > 1
         then Inl (ConflictingIPAddressType explicitIPAddressTypes)
         else (let rawIPAddressType = the_elem explicitIPAddressTypes
               in if rawIPAddressType = IPAddressTypeIPV4
                  then Inr IPAddressTypeIPV4
                  else if rawIPAddressType = IPAddressTypeDualStack
                  then Inr IPAddressTypeDualStack
                  else Inl (UnknownIPAddressType rawIPAddressType)))"

subsection \<open>Calls to the collaborators\<close>

text \<open>
  Subnet discovery, the EC2 client and the managed security group builder are reached over
  the network. A function that may call them returns, next to its result, the calls it
  made, in the order it made them.
\<close>

datatype 'l call =
    CallDiscoverSubnets LoadBalancerScheme
  | CallDescribeSubnetsAsList DescribeSubnetsInput
  | CallDescribeSecurityGroupsAsList DescribeSecurityGroupsInput
  | CallBuildManagedSecurityGroup 'l IPAddressType

type_synonym ('r, 'l) result = "(error + 'r) \<times> 'l call list"

definition succeed :: "'r \<Rightarrow> ('r, 'l) result" where
  "succeed x = (Inr x, [])"

definition failWith :: "error \<Rightarrow> ('r, 'l) result" where
  "failWith err = (Inl err, [])"

definition invoke :: "'l call \<Rightarrow> error + 'r \<Rightarrow> ('r, 'l) result" where
  "invoke c r = (r, [c])"

text \<open>
  \<open>andThen m f\<close>: run \<open>m\<close>; on an error return it (\<^verbatim>\<open>if err != nil { return nil, err }\<close>),
  otherwise go on with \<open>f\<close>.
\<close>

definition andThen :: "('r, 'l) result \<Rightarrow> ('r \<Rightarrow> ('s, 'l) result) \<Rightarrow> ('s, 'l) result" where
  "andThen m f =
     (case m of
        (Inl err, cs) \<Rightarrow> (Inl err, cs)
      | (Inr x, cs) \<Rightarrow> (case f x of (r, cs') \<Rightarrow> (r, cs @ cs')))"

subsection \<open>Resolving names or IDs\<close>

definition HasPrefix :: "string \<Rightarrow> string \<Rightarrow> bool" where
  "HasPrefix s pre = (take (length pre) s = pre)"

text \<open>
  \<^verbatim>\<open>resolveSubnetIDsViaNameOrIDSlice\<close>. The first loop appends each token to
  \<^verbatim>\<open>subnetIDs\<close> or to \<^verbatim>\<open>subnetNames\<close>, which is \<open>partition\<close>.
\<close>

definition resolveSubnetIDsViaNameOrIDSlice ::
  "('a, 'l) defaultModelBuildTask \<Rightarrow> string list \<Rightarrow> (string list, 'l) result" where
  "resolveSubnetIDsViaNameOrIDSlice t subnetNameOrIDs =
     (case partition (\<lambda>nameOrID. HasPrefix nameOrID ''subnet-'') subnetNameOrIDs of
        (subnetIDs, subnetNames) \<Rightarrow>
          andThen
            (if length subnetIDs > 0
             then (let req = \<lparr>SubnetIds = subnetIDs, SubnetFilters = []\<rparr>
                   in invoke (CallDescribeSubnetsAsList req) (DescribeSubnetsAsList (ec2Client t) req))
             else succeed [])
            (\<lambda>subnetsByID.
               andThen
                 (if length subnetNames > 0
                  then (let req = \<lparr>SubnetIds = [], SubnetFilters =
                                    [\<lparr>FilterName = ''tag:Name'', FilterValues = subnetNames\<rparr>,
                                     \<lparr>FilterName = ''vpc-id'', FilterValues = [vpcID t]\<rparr>]\<rparr>
                        in invoke (CallDescribeSubnetsAsList req)
                             (DescribeSubnetsAsList (ec2Client t) req))
                  else succeed [])
                 (\<lambda>subnetsByName.
                    (let resolvedSubnets = subnetsByID @ subnetsByName;
                         resolvedSubnetIDs =
                           map (\<lambda>subnet. StringValue (SubnetId subnet)) resolvedSubnets
                     in if length resolvedSubnetIDs \<noteq> length subnetNameOrIDs
                        then failWith (CouldntFindAllSubnets subnetNameOrIDs resolvedSubnetIDs)
                        else succeed resolvedSubnetIDs))))"

definition resolveSecurityGroupIDsViaNameOrIDSlice ::
  "('a, 'l) defaultModelBuildTask \<Rightarrow> string list \<Rightarrow> (string list, 'l) result" where
  "resolveSecurityGroupIDsViaNameOrIDSlice t sgNameOrIDs =
     (case partition (\<lambda>nameOrID. HasPrefix nameOrID ''sg-'') sgNameOrIDs of
        (sgIDs, sgNames) \<Rightarrow>
          andThen
            (if length sgIDs > 0
             then (let req = \<lparr>GroupIds = sgIDs, GroupFilters = []\<rparr>
                   in invoke (CallDescribeSecurityGroupsAsList req)
                        (DescribeSecurityGroupsAsList (ec2Client t) req))
             else succeed [])
            (\<lambda>sgsByID.
               andThen
                 (if length sgNames > 0
                  then (let req = \<lparr>GroupIds = [], GroupFilters =
                                    [\<lparr>FilterName = ''tag:Name'', FilterValues = sgNames\<rparr>,
                                     \<lparr>FilterName = ''vpc-id'', FilterValues = [vpcID t]\<rparr>]\<rparr>
                        in invoke (CallDescribeSecurityGroupsAsList req)
                             (DescribeSecurityGroupsAsList (ec2Client t) req))
                  else succeed [])
                 (\<lambda>sgsByName.
                    (let resolvedSGs = sgsByID @ sgsByName;
                         resolvedSGIDs = map (\<lambda>sg. StringValue (GroupId sg)) resolvedSGs
                     in if length resolvedSGIDs \<noteq> length sgNameOrIDs
                        then failWith (CouldntFindAllSecurityGroups sgNameOrIDs resolvedSGIDs)
                        else succeed resolvedSGIDs))))"

subsection \<open>Reference fields: subnets and security groups\<close>

definition buildLoadBalancerSubnetMappingsWithSubnetIDs :: "string list \<Rightarrow> SubnetMapping list" where
  "buildLoadBalancerSubnetMappingsWithSubnetIDs subnetIDs =
     map (\<lambda>subnetID. \<lparr>SubnetID = subnetID\<rparr>) subnetIDs"

text \<open>
  The loop over the members that appends every list found; a member without the annotation
  is skipped. The lists come out in the order of the members.
\<close>

primrec collectSlices ::
  "'a AnnotationParser \<Rightarrow> AnnotationSuffix \<Rightarrow> 'a Ingress list \<Rightarrow> string list list" where
  "collectSlices p sfx [] = []"
| "collectSlices p sfx (ing # ings) =
     (case ParseStringSliceAnnotation p sfx (Annotations ing) of
        None \<Rightarrow> collectSlices p sfx ings
      | Some raw \<Rightarrow> raw # collectSlices p sfx ings)"

text \<open>
  Modelled from the spec: \<^verbatim>\<open>equality.IgnoreStringSliceOrder\<close> (\<^verbatim>\<open>pkg/equality\<close>) is not
  among the sources at hand. The spec has the subnet lists compared as sets: the order of
  the elements does not matter, and neither do duplicates.
\<close>

definition EqualIgnoreStringSliceOrder :: "string list \<Rightarrow> string list \<Rightarrow> bool" where
  "EqualIgnoreStringSliceOrder xs ys = (set xs = set ys)"

text \<open>
  \<^verbatim>\<open>cmp.Equal\<close> without options on two string slices: the same elements at the same
  positions.
\<close>

definition Equal :: "string list \<Rightarrow> string list \<Rightarrow> bool" where
  "Equal xs ys = (xs = ys)"

text \<open>
  The loops over \<^verbatim>\<open>explicitSubnetNameOrIDsList[1:]\<close> and \<^verbatim>\<open>explicitSGNameOrIDsList[1:]\<close>:
  the first list that differs from the chosen one ends the loop with an error.
\<close>

primrec checkSubnetNameOrIDs :: "string list \<Rightarrow> string list list \<Rightarrow> error option" where
  "checkSubnetNameOrIDs chosenSubnetNameOrIDs [] = None"
| "checkSubnetNameOrIDs chosenSubnetNameOrIDs (subnetNameOrIDs # rest) =
     (if \<not> EqualIgnoreStringSliceOrder chosenSubnetNameOrIDs subnetNameOrIDs
      then Some (ConflictingSubnets chosenSubnetNameOrIDs subnetNameOrIDs)
      else checkSubnetNameOrIDs chosenSubnetNameOrIDs rest)"

primrec checkSGNameOrIDs :: "string list \<Rightarrow> string list list \<Rightarrow> error option" where
  "checkSGNameOrIDs chosenSGNameOrIDs [] = None"
| "checkSGNameOrIDs chosenSGNameOrIDs (sgNameOrIDs # rest) =
     (if \<not> Equal chosenSGNameOrIDs sgNameOrIDs
      then Some (ConflictingSecurityGroups chosenSGNameOrIDs sgNameOrIDs)
      else checkSGNameOrIDs chosenSGNameOrIDs rest)"

definition buildLoadBalancerSubnetMappings ::
  "('a, 'l) defaultModelBuildTask \<Rightarrow> LoadBalancerScheme \<Rightarrow> (SubnetMapping list, 'l) result" where
  "buildLoadBalancerSubnetMappings t scheme =
     (case collectSlices (annotationParser t) IngressSuffixSubnets (Members (ingGroup t)) of
        [] \<Rightarrow>
          andThen (invoke (CallDiscoverSubnets scheme) (DiscoverSubnets (subnetsResolver t) scheme))
            (\<lambda>chosenSubnets.
               (let chosenSubnetIDs = map (\<lambda>subnet. StringValue (SubnetId subnet)) chosenSubnets
                in if length chosenSubnetIDs < 2
                   then failWith (InsufficientSubnets chosenSubnetIDs)
                   else succeed (buildLoadBalancerSubnetMappingsWithSubnetIDs chosenSubnetIDs)))
      | chosenSubnetNameOrIDs # rest \<Rightarrow>
          (case checkSubnetNameOrIDs chosenSubnetNameOrIDs rest of
             Some err \<Rightarrow> failWith err
           | None \<Rightarrow>
               andThen (resolveSubnetIDsViaNameOrIDSlice t chosenSubnetNameOrIDs)
                 (\<lambda>chosenSubnetIDs.
                    succeed (buildLoadBalancerSubnetMappingsWithSubnetIDs chosenSubnetIDs))))"

definition buildLoadBalancerSecurityGroups ::
  "('a, 'l) defaultModelBuildTask \<Rightarrow> 'l \<Rightarrow> IPAddressType \<Rightarrow> (StringToken list, 'l) result" where
  "buildLoadBalancerSecurityGroups t listenPortConfigByPort ipAddressType =
     (case collectSlices (annotationParser t) IngressSuffixSecurityGroups (Members (ingGroup t)) of
        [] \<Rightarrow>
          andThen (invoke (CallBuildManagedSecurityGroup listenPortConfigByPort ipAddressType)
                     (buildManagedSecurityGroup t listenPortConfigByPort ipAddressType))
            (\<lambda>sg. succeed [GroupID sg])
      | chosenSGNameOrIDs # rest \<Rightarrow>
          (case checkSGNameOrIDs chosenSGNameOrIDs rest of
             Some err \<Rightarrow> failWith err
           | None \<Rightarrow>
               andThen (resolveSecurityGroupIDsViaNameOrIDSlice t chosenSGNameOrIDs)
                 (\<lambda>chosenSGIDs. succeed (map LiteralStringToken chosenSGIDs))))"

subsection \<open>Map-valued fields: attributes and tags\<close>

text \<open>
  The inner loop over one member's map: a key already merged with another value ends the
  loop with an error (built by \<open>conflict\<close> from the key, the value merged before and the
  new value); otherwise the entry is stored.
\<close>

primrec mergeEntries ::
  "(string \<Rightarrow> string \<Rightarrow> string \<Rightarrow> error) \<Rightarrow> (string \<times> string) list \<Rightarrow> (string \<times> string) list
     \<Rightarrow> error + (string \<times> string) list" where
  "mergeEntries conflict merged [] = Inr merged"
| "mergeEntries conflict merged (kv # kvs) =
     (case map_of merged (fst kv) of
        None \<Rightarrow> mergeEntries conflict (AList.update (fst kv) (snd kv) merged) kvs
      | Some existing \<Rightarrow>
          if existing \<noteq> snd kv then Inl (conflict (fst kv) existing (snd kv))
          else mergeEntries conflict (AList.update (fst kv) (snd kv) merged) kvs)"

text \<open>The outer loop over the members; a map that does not parse ends it with the parser's error.\<close>

primrec mergeMembers ::
  "'a AnnotationParser \<Rightarrow> AnnotationSuffix \<Rightarrow> (string \<Rightarrow> string \<Rightarrow> string \<Rightarrow> error)
     \<Rightarrow> (string \<times> string) list \<Rightarrow> 'a Ingress list \<Rightarrow> error + (string \<times> string) list" where
  "mergeMembers p sfx conflict merged [] = Inr merged"
| "mergeMembers p sfx conflict merged (ing # ings) =
     (case ParseStringMapAnnotation p sfx (Annotations ing) of
        Inl err \<Rightarrow> Inl err
      | Inr raw \<Rightarrow>
          (case mergeEntries conflict merged raw of
             Inl err \<Rightarrow> Inl err
           | Inr merged' \<Rightarrow> mergeMembers p sfx conflict merged' ings))"

definition buildLoadBalancerAttributes ::
  "('a, 'l) defaultModelBuildTask \<Rightarrow> error + LoadBalancerAttribute list" where
  "buildLoadBalancerAttributes t =
     (case mergeMembers (annotationParser t) IngressSuffixLoadBalancerAttributes
             ConflictingLoadBalancerAttribute [] (Members (ingGroup t)) of
        Inl err \<Rightarrow> Inl err
      | Inr mergedAttributes \<Rightarrow>
          Inr (map (\<lambda>(attrKey, attrValue). \<lparr>Key = attrKey, Value = attrValue\<rparr>) mergedAttributes))"

definition buildLoadBalancerTags ::
  "('a, 'l) defaultModelBuildTask \<Rightarrow> error + (string \<times> string) list" where
  "buildLoadBalancerTags t =
     mergeMembers (annotationParser t) IngressSuffixTags ConflictingTag [] (Members (ingGroup t))"

subsection \<open>The specification\<close>

text \<open>
  \<^verbatim>\<open>buildLoadBalancerSpec\<close> returns a pair in Go, the specification and the error; so does
  the model, with \<open>None\<close> for \<^verbatim>\<open>nil\<close>.
\<close>

definition buildLoadBalancerSpec ::
  "(string \<Rightarrow> string) \<Rightarrow> ('a, 'l) defaultModelBuildTask \<Rightarrow> 'l
     \<Rightarrow> (LoadBalancerSpec \<times> error option) \<times> 'l call list" where
  "buildLoadBalancerSpec sha256 t listenPortConfigByPort =
     (case buildLoadBalancerScheme t of
        Inl err \<Rightarrow> ((emptyLoadBalancerSpec, Some err), [])
      | Inr scheme \<Rightarrow>
     (case buildLoadBalancerIPAddressType t of
        Inl err \<Rightarrow> ((emptyLoadBalancerSpec, Some err), [])
      | Inr ipAddressType \<Rightarrow>
     (case buildLoadBalancerSubnetMappings t scheme of
        (Inl err, cs) \<Rightarrow> ((emptyLoadBalancerSpec, Some err), cs)
      | (Inr subnetMappings, cs) \<Rightarrow>
     (case buildLoadBalancerSecurityGroups t listenPortConfigByPort ipAddressType of
        (Inl err, cs') \<Rightarrow> ((emptyLoadBalancerSpec, Some err), cs @ cs')
      | (Inr securityGroups, cs') \<Rightarrow>
     (case buildLoadBalancerAttributes t of
        Inl err \<Rightarrow> ((emptyLoadBalancerSpec, Some err), cs @ cs')
      | Inr loadBalancerAttributes \<Rightarrow>
     (case buildLoadBalancerTags t of
        Inl err \<Rightarrow> ((emptyLoadBalancerSpec, Some err), cs @ cs')
      | Inr tags \<Rightarrow>
          ((\<lparr>specName = buildLoadBalancerName sha256 t scheme,
             specType = LoadBalancerTypeApplication,
             specScheme = Some scheme,
             specIPAddressType = Some ipAddressType,
             specSubnetMappings = subnetMappings,
             specSecurityGroups = securityGroups,
             specLoadBalancerAttributes = loadBalancerAttributes,
             specTags = tags\<rparr>, None), cs @ cs')))))))"

subsection \<open>A small group for the examples\<close>

text \<open>
  The examples below run the functions on a concrete task. Its members carry their
  annotations already parsed, so the parser only selects a field. The EC2 client answers
  from a fixed inventory of named subnets and security groups, subnet discovery returns
  the subnets it is given, and \<open>exampleDigest\<close> stands in for SHA-256 (the theorems hold
  for every function in its place).
\<close>

record Source =
  srcScheme :: "string option"
  srcIPAddressType :: "string option"
  srcSubnets :: "string list option"
  srcSecurityGroups :: "string list option"
  srcAttributes :: "error + (string \<times> string) list"
  srcTags :: "error + (string \<times> string) list"

definition noAnnotations :: Source where
  "noAnnotations =
     \<lparr>srcScheme = None, srcIPAddressType = None, srcSubnets = None, srcSecurityGroups = None,
      srcAttributes = Inr [], srcTags = Inr []\<rparr>"

definition exampleParser :: "Source AnnotationParser" where
  "exampleParser =
     \<lparr>ParseStringAnnotation =
        (\<lambda>sfx a. if sfx = IngressSuffixScheme then srcScheme a
                  else if sfx = IngressSuffixIPAddressType then srcIPAddressType a
                  else None),
      ParseStringSliceAnnotation =
        (\<lambda>sfx a. if sfx = IngressSuffixSubnets then srcSubnets a
                  else if sfx = IngressSuffixSecurityGroups then srcSecurityGroups a
                  else None),
      ParseStringMapAnnotation =
        (\<lambda>sfx a. if sfx = IngressSuffixLoadBalancerAttributes then srcAttributes a
                  else if sfx = IngressSuffixTags then srcTags a
                  else Inr [])\<rparr>"

definition exampleSubnets :: "(string \<times> Subnet) list" where
  "exampleSubnets =
     [(''blue'', \<lparr>SubnetId = Some ''subnet-1'', AvailabilityZone = Some ''us-west-2a''\<rparr>),
      (''green'', \<lparr>SubnetId = Some ''subnet-2'', AvailabilityZone = Some ''us-west-2b''\<rparr>)]"

definition exampleSecurityGroups :: "(string \<times> SecurityGroup) list" where
  "exampleSecurityGroups =
     [(''web'', \<lparr>GroupId = Some ''sg-1''\<rparr>), (''db'', \<lparr>GroupId = Some ''sg-2''\<rparr>)]"

definition nameTagValues :: "Filter list \<Rightarrow> string list" where
  "nameTagValues fs = concat (map FilterValues (filter (\<lambda>f. FilterName f = ''tag:Name'') fs))"

definition exampleEC2 :: EC2Client where
  "exampleEC2 =
     \<lparr>DescribeSubnetsAsList =
        (\<lambda>req. Inr (map snd (filter
           (\<lambda>entry. StringValue (SubnetId (snd entry)) \<in> set (SubnetIds req)
                     \<or> fst entry \<in> set (nameTagValues (SubnetFilters req)))
           exampleSubnets))),
      DescribeSecurityGroupsAsList =
        (\<lambda>req. Inr (map snd (filter
           (\<lambda>entry. StringValue (GroupId (snd entry)) \<in> set (GroupIds req)
                     \<or> fst entry \<in> set (nameTagValues (GroupFilters req)))
           exampleSecurityGroups)))\<rparr>"

definition exampleDigest :: "string \<Rightarrow> string" where
  "exampleDigest bs = take 32 bs"

definition exampleTask ::
  "GroupID \<Rightarrow> Source list \<Rightarrow> Subnet list \<Rightarrow> (Source, unit) defaultModelBuildTask" where
  "exampleTask gid sources discovered =
     \<lparr>clusterName = ''prod'',
      vpcID = ''vpc-1'',
      ingGroup = \<lparr>ID = gid, Members = map (\<lambda>a. \<lparr>Annotations = a\<rparr>) sources\<rparr>,
      annotationParser = exampleParser,
      subnetsResolver = \<lparr>DiscoverSubnets = (\<lambda>scheme. Inr discovered)\<rparr>,
      ec2Client = exampleEC2,
      defaultScheme = LoadBalancerSchemeInternal,
      defaultIPAddressType = IPAddressTypeIPV4,
      buildManagedSecurityGroup =
        (\<lambda>listenPortConfigByPort ipAddressType.
           Inr \<lparr>GroupID = ManagedGroupIDToken ''ManagedLBSecurityGroup''\<rparr>)\<rparr>"

definition explicitGroup :: "string \<Rightarrow> GroupID" where
  "explicitGroup name = \<lparr>Namespace = [], Name = name, IsExplicit = True, IDString = name\<rparr>"

definition implicitGroup :: "string \<Rightarrow> string \<Rightarrow> GroupID" where
  "implicitGroup namespace name =
     \<lparr>Namespace = namespace, Name = name, IsExplicit = False, IDString = namespace @ ''/'' @ name\<rparr>"

subsection \<open>What the members specify\<close>

text \<open>
  The raw values of a string annotation, one for each member that carries it, in the order
  of the members.
\<close>

definition specifiedStrings :: "('a, 'l) defaultModelBuildTask \<Rightarrow> AnnotationSuffix \<Rightarrow> string list" where
  "specifiedStrings t sfx =
     List.map_filter (\<lambda>ing. ParseStringAnnotation (annotationParser t) sfx (Annotations ing))
       (Members (ingGroup t))"

text \<open>
  The lists of a string-slice annotation, one for each member that carries it, in the order
  of the members: the head is the list of the first member that specifies the field.
\<close>

definition specifiedSlices ::
  "('a, 'l) defaultModelBuildTask \<Rightarrow> AnnotationSuffix \<Rightarrow> string list list" where
  "specifiedSlices t sfx =
     List.map_filter (\<lambda>ing. ParseStringSliceAnnotation (annotationParser t) sfx (Annotations ing))
       (Members (ingGroup t))"

text \<open>
  What the parser returns for a string-map annotation, member by member.
\<close>

definition parsedMaps ::
  "('a, 'l) defaultModelBuildTask \<Rightarrow> AnnotationSuffix \<Rightarrow> (error + (string \<times> string) list) list" where
  "parsedMaps t sfx =
     map (\<lambda>ing. ParseStringMapAnnotation (annotationParser t) sfx (Annotations ing))
       (Members (ingGroup t))"

text \<open>
  Entries agree when no key comes with two different values.
\<close>

definition agree :: "(string \<times> string) list \<Rightarrow> bool" where
  "agree entries =
     (\<forall>kv \<in> set entries. \<forall>kv' \<in> set entries. fst kv = fst kv' \<longrightarrow> snd kv = snd kv')"

section \<open>Properties\<close>

subsection \<open>The name of the load balancer\<close>

lemma ReplaceAllString_delete: "ReplaceAllString pat s [] = filter (\<lambda>c. \<not> pat c) s"
  by (induction s) simp_all

lemma sanitize_filter:
  "ReplaceAllString invalidLoadBalancerNamePattern s [] = filter isAlnum s"
  by (simp add: ReplaceAllString_delete invalidLoadBalancerNamePattern_def)

lemma hextable_alnum: "list_all isAlnum hextable"
  by (simp add: hextable_def isAlnum_def)

lemma hexdigit_alnum: "n < 16 \<Longrightarrow> isAlnum (hextable ! n)"
proof -
  assume "n < 16"
  then have "n < length hextable" by (simp add: hextable_def)
  then have "hextable ! n \<in> set hextable" by (rule nth_mem)
  with hextable_alnum show ?thesis by (simp add: list_all_iff)
qed

lemma of_char_div_16: "(of_char b :: nat) div 16 < 16"
proof -
  have "(of_char b :: nat) < 256" by simp
  then show ?thesis by arith
qed

lemma EncodeToString_alnum: "c \<in> set (EncodeToString bs) \<Longrightarrow> isAlnum c"
  by (auto simp: EncodeToString_def hexdigit_alnum of_char_div_16)

text \<open>
  Claim C6. The name is a function of the cluster name, the group's identity and the scheme
  alone (a total function: it returns a name, never an error), so the same three inputs give
  the same name whatever else the task holds. For an explicit group the name is the prefix
  \<open>k8s-\<close>, the first 17 characters of the sanitized name, a hyphen and the first 10
  characters of the hexadecimal digest; for a derived group it is the prefix, the first 8
  characters of the sanitized namespace, a hyphen, the first 8 characters of the sanitized
  name, a hyphen and the first 10 characters of the digest. The digest is taken over the
  cluster name, the identity's string form and the scheme, concatenated in this order, and
  sanitizing keeps exactly the ASCII letters and digits.
\<close>

theorem buildLoadBalancerName_form:
  "buildLoadBalancerName sha256 t scheme =
     (let gid = ID (ingGroup t);
          hexdigest = EncodeToString (sha256 (clusterName t @ IDString gid @ scheme))
      in if IsExplicit gid
         then ''k8s-'' @ take 17 (filter isAlnum (Name gid)) @ ''-'' @ take 10 hexdigest
         else ''k8s-'' @ take 8 (filter isAlnum (Namespace gid)) @ ''-''
                @ take 8 (filter isAlnum (Name gid)) @ ''-'' @ take 10 hexdigest)
   \<and> (clusterName t' = clusterName t \<and> ID (ingGroup t') = ID (ingGroup t)
        \<longrightarrow> buildLoadBalancerName sha256 t' scheme = buildLoadBalancerName sha256 t scheme)"
  by (simp add: buildLoadBalancerName_def sanitize_filter precision_def Let_def)

theorem buildLoadBalancerName_form_witness:
  "buildLoadBalancerName exampleDigest (exampleTask (explicitGroup ''my-group'') [] []) ''internal''
     = ''k8s-mygroup-70726f646d''
   \<and> buildLoadBalancerName exampleDigest
        (exampleTask (explicitGroup ''my-group'') [noAnnotations] []) ''internal''
     = ''k8s-mygroup-70726f646d''
   \<and> buildLoadBalancerName exampleDigest
        (exampleTask (implicitGroup ''kube-system'' ''web.ingress.v2'') [] []) ''internal''
     = ''k8s-kubesyst-webingre-70726f646b''"
proof -
  let ?t = "exampleTask (explicitGroup ''my-group'') [] []"
  let ?t' = "exampleTask (explicitGroup ''my-group'') [noAnnotations] []"
  let ?u = "exampleTask (implicitGroup ''kube-system'' ''web.ingress.v2'') [] []"
  note explicit = buildLoadBalancerName_form [of exampleDigest ?t "''internal''" ?t']
  note implicit = buildLoadBalancerName_form [of exampleDigest ?u "''internal''" ?u]
  have a: "buildLoadBalancerName exampleDigest ?t ''internal'' = ''k8s-mygroup-70726f646d''"
    using explicit [THEN conjunct1]
    by (simp add: exampleTask_def explicitGroup_def exampleDigest_def
        EncodeToString_def hextable_def isAlnum_def)
  have b: "buildLoadBalancerName exampleDigest ?t' ''internal''
             = buildLoadBalancerName exampleDigest ?t ''internal''"
    using explicit [THEN conjunct2] by (simp add: exampleTask_def)
  have c: "buildLoadBalancerName exampleDigest ?u ''internal''
             = ''k8s-kubesyst-webingre-70726f646b''"
    using implicit [THEN conjunct1]
    by (simp add: exampleTask_def implicitGroup_def exampleDigest_def
        EncodeToString_def hextable_def isAlnum_def)
  from a b c show ?thesis by simp
qed

text \<open>
  Claim C7, as stated, fails: the group name \<open>a-b-c-d-e-f-g-h-i-j\<close> has 19 characters, but
  only 10 of them are letters or digits, so it contributes 10 characters and not 17; and the
  generated name holds the hyphens of its format, which are not alphanumeric.
\<close>

theorem explicit_name_counterexample:
  "17 < length (Name (ID (ingGroup (exampleTask (explicitGroup ''a-b-c-d-e-f-g-h-i-j'') [] []))))
   \<and> IsExplicit (ID (ingGroup (exampleTask (explicitGroup ''a-b-c-d-e-f-g-h-i-j'') [] [])))
   \<and> buildLoadBalancerName exampleDigest
        (exampleTask (explicitGroup ''a-b-c-d-e-f-g-h-i-j'') [] []) ''internal''
       = ''k8s-abcdefghij-70726f6461''
   \<and> length ''abcdefghij'' \<noteq> 17
   \<and> CHR ''-'' \<in> set (buildLoadBalancerName exampleDigest
        (exampleTask (explicitGroup ''a-b-c-d-e-f-g-h-i-j'') [] []) ''internal'')
   \<and> \<not> isAlnum (CHR ''-'')"
  by (simp add: buildLoadBalancerName_def exampleTask_def explicitGroup_def exampleDigest_def
      EncodeToString_def hextable_def isAlnum_def precision_def
      invalidLoadBalancerNamePattern_def)

lemma set_take_filter: "c \<in> set (take n (filter P s)) \<Longrightarrow> P c"
  using set_take_subset [of n "filter P s"] by auto

lemma set_take_hex: "c \<in> set (take n (EncodeToString bs)) \<Longrightarrow> isAlnum c"
  using set_take_subset [of n "EncodeToString bs"] EncodeToString_alnum by blast

text \<open>
  Claim C7, amended. The name of an explicit group contributes the first 17 characters of
  its sanitized form, which are all of them when fewer than 17 letters and digits remain
  after sanitizing. Every character of a generated name is an ASCII letter, a digit or a
  hyphen; the hyphens are those of the format, the segments between them hold letters and
  digits only.
\<close>

theorem buildLoadBalancerName_characters:
  "(IsExplicit (ID (ingGroup t)) \<longrightarrow>
      (\<exists>payload digest.
         buildLoadBalancerName sha256 t scheme = ''k8s-'' @ payload @ ''-'' @ digest
         \<and> payload = take 17 (filter isAlnum (Name (ID (ingGroup t))))
         \<and> length payload = min 17 (length (filter isAlnum (Name (ID (ingGroup t)))))
         \<and> list_all isAlnum payload \<and> list_all isAlnum digest))
   \<and> (\<forall>c \<in> set (buildLoadBalancerName sha256 t scheme). isAlnum c \<or> c = CHR ''-'')"
proof -
  have chars: "\<forall>c \<in> set (buildLoadBalancerName sha256 t scheme). isAlnum c \<or> c = CHR ''-''"
    by (auto simp: buildLoadBalancerName_def sanitize_filter precision_def Let_def isAlnum_def
        dest: set_take_filter set_take_hex)
  have "list_all isAlnum (take 17 (filter isAlnum (Name (ID (ingGroup t)))))"
    by (auto simp: list_all_iff dest: set_take_filter)
  moreover have "list_all isAlnum
      (take 10 (EncodeToString (sha256 (clusterName t @ IDString (ID (ingGroup t)) @ scheme))))"
    by (auto simp: list_all_iff dest: set_take_hex)
  ultimately have "IsExplicit (ID (ingGroup t)) \<longrightarrow>
      (\<exists>payload digest.
         buildLoadBalancerName sha256 t scheme = ''k8s-'' @ payload @ ''-'' @ digest
         \<and> payload = take 17 (filter isAlnum (Name (ID (ingGroup t))))
         \<and> length payload = min 17 (length (filter isAlnum (Name (ID (ingGroup t)))))
         \<and> list_all isAlnum payload \<and> list_all isAlnum digest)"
    by (simp add: buildLoadBalancerName_def sanitize_filter precision_def Let_def min.commute)
  with chars show ?thesis by (rule_tac conjI)
qed

theorem buildLoadBalancerName_characters_witness:
  "buildLoadBalancerName exampleDigest
     (exampleTask (explicitGroup ''an-explicit-group-name.v2'') [] []) ''internal''
     = ''k8s-anexplicitgroupna-70726f6461''
   \<and> length ''anexplicitgroupna'' = 17
   \<and> list_all (\<lambda>c. isAlnum c \<or> c = CHR ''-'')
        (buildLoadBalancerName exampleDigest
           (exampleTask (explicitGroup ''an-explicit-group-name.v2'') [] []) ''internal'')"
proof -
  let ?t = "exampleTask (explicitGroup ''an-explicit-group-name.v2'') [] []"
  note w = buildLoadBalancerName_characters [of ?t exampleDigest "''internal''"]
  have explicit: "IsExplicit (ID (ingGroup ?t))"
    by (simp add: exampleTask_def explicitGroup_def)
  from w explicit obtain payload digest where
    name: "buildLoadBalancerName exampleDigest ?t ''internal'' = ''k8s-'' @ payload @ ''-'' @ digest"
    and payload: "payload = take 17 (filter isAlnum (Name (ID (ingGroup ?t))))"
    by blast
  have "payload = ''anexplicitgroupna''"
    unfolding payload by (simp add: exampleTask_def explicitGroup_def isAlnum_def)
  with name have "take 21 (buildLoadBalancerName exampleDigest ?t ''internal'')
      = ''k8s-anexplicitgroupna''"
    by simp
  moreover have "buildLoadBalancerName exampleDigest ?t ''internal''
      = ''k8s-anexplicitgroupna-70726f6461''"
    by (simp add: buildLoadBalancerName_def exampleTask_def explicitGroup_def exampleDigest_def
      EncodeToString_def hextable_def isAlnum_def precision_def
      invalidLoadBalancerNamePattern_def)
  moreover from w have "list_all (\<lambda>c. isAlnum c \<or> c = CHR ''-'')
        (buildLoadBalancerName exampleDigest ?t ''internal'')"
    by (simp add: list_all_iff)
  ultimately show ?thesis by simp
qed


subsection \<open>Single-valued fields\<close>

lemma collectStrings_map_filter:
  "collectStrings p sfx ings acc
     = acc \<union> set (List.map_filter (\<lambda>ing. ParseStringAnnotation p sfx (Annotations ing)) ings)"
  by (induction ings arbitrary: acc) (auto simp: map_filter_simps split: option.splits)

lemma collectStrings_specified:
  "collectStrings (annotationParser t) sfx (Members (ingGroup t)) {} = set (specifiedStrings t sfx)"
  by (simp add: collectStrings_map_filter specifiedStrings_def)

lemma card_ge2_not_single: "2 \<le> card (set xs) \<Longrightarrow> card (set xs) \<noteq> 0 \<and> 1 < card (set xs)"
  by arith

text \<open>
  Claim C4. For the scheme and for the IP address type: when no member specifies the field,
  the result is the task's default; when the members that specify it give one distinct raw
  value, the result is that value if it is one of the two values of the field's enumeration
  and otherwise an error naming the value; when they give two or more distinct values, the
  result is a conflict carrying exactly the set of these values.
\<close>

theorem single_valued_fields:
  "(specifiedStrings t IngressSuffixScheme = []
      \<longrightarrow> buildLoadBalancerScheme t = Inr (defaultScheme t))
   \<and> (set (specifiedStrings t IngressSuffixScheme) = {raw}
      \<longrightarrow> buildLoadBalancerScheme t =
            (if raw = LoadBalancerSchemeInternetFacing \<or> raw = LoadBalancerSchemeInternal
             then Inr raw else Inl (UnknownScheme raw)))
   \<and> (2 \<le> card (set (specifiedStrings t IngressSuffixScheme))
      \<longrightarrow> buildLoadBalancerScheme t
            = Inl (ConflictingScheme (set (specifiedStrings t IngressSuffixScheme))))
   \<and> (specifiedStrings t IngressSuffixIPAddressType = []
      \<longrightarrow> buildLoadBalancerIPAddressType t = Inr (defaultIPAddressType t))
   \<and> (set (specifiedStrings t IngressSuffixIPAddressType) = {raw'}
      \<longrightarrow> buildLoadBalancerIPAddressType t =
            (if raw' = IPAddressTypeIPV4 \<or> raw' = IPAddressTypeDualStack
             then Inr raw' else Inl (UnknownIPAddressType raw')))
   \<and> (2 \<le> card (set (specifiedStrings t IngressSuffixIPAddressType))
      \<longrightarrow> buildLoadBalancerIPAddressType t
            = Inl (ConflictingIPAddressType (set (specifiedStrings t IngressSuffixIPAddressType))))"
proof -
  have s1: "specifiedStrings t IngressSuffixScheme = []
      \<longrightarrow> buildLoadBalancerScheme t = Inr (defaultScheme t)"
    by (simp add: buildLoadBalancerScheme_def collectStrings_specified)
  have s2: "set (specifiedStrings t IngressSuffixScheme) = {raw}
      \<longrightarrow> buildLoadBalancerScheme t =
            (if raw = LoadBalancerSchemeInternetFacing \<or> raw = LoadBalancerSchemeInternal
             then Inr raw else Inl (UnknownScheme raw))"
    by (simp add: buildLoadBalancerScheme_def collectStrings_specified)
  have s3: "2 \<le> card (set (specifiedStrings t IngressSuffixScheme))
      \<longrightarrow> buildLoadBalancerScheme t
            = Inl (ConflictingScheme (set (specifiedStrings t IngressSuffixScheme)))"
    using card_ge2_not_single [of "specifiedStrings t IngressSuffixScheme"]
    by (simp add: buildLoadBalancerScheme_def collectStrings_specified)
  have i1: "specifiedStrings t IngressSuffixIPAddressType = []
      \<longrightarrow> buildLoadBalancerIPAddressType t = Inr (defaultIPAddressType t)"
    by (simp add: buildLoadBalancerIPAddressType_def collectStrings_specified)
  have i2: "set (specifiedStrings t IngressSuffixIPAddressType) = {raw'}
      \<longrightarrow> buildLoadBalancerIPAddressType t =
            (if raw' = IPAddressTypeIPV4 \<or> raw' = IPAddressTypeDualStack
             then Inr raw' else Inl (UnknownIPAddressType raw'))"
    by (simp add: buildLoadBalancerIPAddressType_def collectStrings_specified)
  have i3: "2 \<le> card (set (specifiedStrings t IngressSuffixIPAddressType))
      \<longrightarrow> buildLoadBalancerIPAddressType t
            = Inl (ConflictingIPAddressType (set (specifiedStrings t IngressSuffixIPAddressType)))"
    using card_ge2_not_single [of "specifiedStrings t IngressSuffixIPAddressType"]
    by (simp add: buildLoadBalancerIPAddressType_def collectStrings_specified)
  from s1 s2 s3 i1 i2 i3 show ?thesis by blast
qed

theorem single_valued_fields_witness:
  "buildLoadBalancerScheme (exampleTask (explicitGroup ''g'') [noAnnotations] []) = Inr ''internal''
   \<and> buildLoadBalancerIPAddressType (exampleTask (explicitGroup ''g'') [noAnnotations] [])
       = Inr ''ipv4''
   \<and> buildLoadBalancerScheme (exampleTask (explicitGroup ''g'')
        [noAnnotations\<lparr>srcScheme := Some ''public'', srcIPAddressType := Some ''dualstack''\<rparr>,
         noAnnotations] [])
       = Inl (UnknownScheme ''public'')
   \<and> buildLoadBalancerIPAddressType (exampleTask (explicitGroup ''g'')
        [noAnnotations\<lparr>srcScheme := Some ''public'', srcIPAddressType := Some ''dualstack''\<rparr>,
         noAnnotations] [])
       = Inr ''dualstack''
   \<and> buildLoadBalancerScheme (exampleTask (explicitGroup ''g'')
        [noAnnotations\<lparr>srcScheme := Some ''internal'', srcIPAddressType := Some ''ipv4''\<rparr>,
         noAnnotations,
         noAnnotations\<lparr>srcScheme := Some ''internet-facing'', srcIPAddressType := Some ''ipv6''\<rparr>,
         noAnnotations\<lparr>srcScheme := Some ''internal''\<rparr>] [])
       = Inl (ConflictingScheme {''internal'', ''internet-facing''})
   \<and> buildLoadBalancerIPAddressType (exampleTask (explicitGroup ''g'')
        [noAnnotations\<lparr>srcScheme := Some ''internal'', srcIPAddressType := Some ''ipv4''\<rparr>,
         noAnnotations,
         noAnnotations\<lparr>srcScheme := Some ''internet-facing'', srcIPAddressType := Some ''ipv6''\<rparr>,
         noAnnotations\<lparr>srcScheme := Some ''internal''\<rparr>] [])
       = Inl (ConflictingIPAddressType {''ipv4'', ''ipv6''})"
proof -
  let ?t1 = "exampleTask (explicitGroup ''g'') [noAnnotations] []"
  let ?t2 = "exampleTask (explicitGroup ''g'')
        [noAnnotations\<lparr>srcScheme := Some ''public'', srcIPAddressType := Some ''dualstack''\<rparr>,
         noAnnotations] []"
  let ?t3 = "exampleTask (explicitGroup ''g'')
        [noAnnotations\<lparr>srcScheme := Some ''internal'', srcIPAddressType := Some ''ipv4''\<rparr>,
         noAnnotations,
         noAnnotations\<lparr>srcScheme := Some ''internet-facing'', srcIPAddressType := Some ''ipv6''\<rparr>,
         noAnnotations\<lparr>srcScheme := Some ''internal''\<rparr>] []"
  note defs = specifiedStrings_def exampleTask_def exampleParser_def noAnnotations_def
    map_filter_simps LoadBalancerSchemeInternal_def LoadBalancerSchemeInternetFacing_def
    IPAddressTypeIPV4_def IPAddressTypeDualStack_def
  have none: "specifiedStrings ?t1 IngressSuffixScheme = []"
    "specifiedStrings ?t1 IngressSuffixIPAddressType = []"
    by (simp_all add: defs)
  have one: "set (specifiedStrings ?t2 IngressSuffixScheme) = {''public''}"
    "set (specifiedStrings ?t2 IngressSuffixIPAddressType) = {''dualstack''}"
    by (simp_all add: defs)
  have two: "set (specifiedStrings ?t3 IngressSuffixScheme) = {''internal'', ''internet-facing''}"
    "set (specifiedStrings ?t3 IngressSuffixIPAddressType) = {''ipv4'', ''ipv6''}"
    by (auto simp add: defs)
  have many: "2 \<le> card (set (specifiedStrings ?t3 IngressSuffixScheme))"
    "2 \<le> card (set (specifiedStrings ?t3 IngressSuffixIPAddressType))"
    unfolding two by simp_all
  from single_valued_fields [of ?t1] none
  have r1: "buildLoadBalancerScheme ?t1 = Inr ''internal''"
    "buildLoadBalancerIPAddressType ?t1 = Inr ''ipv4''"
    by (simp_all add: exampleTask_def LoadBalancerSchemeInternal_def IPAddressTypeIPV4_def)
  from single_valued_fields [of ?t2 "''public''" "''dualstack''"] one
  have r2: "buildLoadBalancerScheme ?t2 = Inl (UnknownScheme ''public'')"
    "buildLoadBalancerIPAddressType ?t2 = Inr ''dualstack''"
    by (simp_all add: LoadBalancerSchemeInternal_def LoadBalancerSchemeInternetFacing_def
        IPAddressTypeIPV4_def IPAddressTypeDualStack_def)
  from single_valued_fields [of ?t3] many
  have r3: "buildLoadBalancerScheme ?t3 = Inl (ConflictingScheme {''internal'', ''internet-facing''})"
    "buildLoadBalancerIPAddressType ?t3 = Inl (ConflictingIPAddressType {''ipv4'', ''ipv6''})"
    unfolding two by blast+
  from r1 r2 r3 show ?thesis by simp
qed

subsection \<open>Resolving names or IDs\<close>

lemma andThen_Inr [simp]: "andThen (Inr x, cs) f = (fst (f x), cs @ snd (f x))"
  by (simp add: andThen_def split: prod.splits)

lemma andThen_Inl [simp]: "andThen (Inl err, cs) f = (Inl err, cs)"
  by (simp add: andThen_def)

lemma andThen_succeed [simp]: "andThen (succeed x) f = f x"
  by (simp add: succeed_def)

lemma resolveSubnetIDs_run:
  assumes ids: "subnetIDs = filter (\<lambda>nameOrID. HasPrefix nameOrID ''subnet-'') subnetNameOrIDs"
    and names: "subnetNames = filter (\<lambda>nameOrID. \<not> HasPrefix nameOrID ''subnet-'') subnetNameOrIDs"
    and byID: "(if subnetIDs = [] then Inr []
                else DescribeSubnetsAsList (ec2Client t) \<lparr>SubnetIds = subnetIDs, SubnetFilters = []\<rparr>)
               = Inr subnetsByID"
    and byName: "(if subnetNames = [] then Inr []
                  else DescribeSubnetsAsList (ec2Client t)
                         \<lparr>SubnetIds = [], SubnetFilters =
                            [\<lparr>FilterName = ''tag:Name'', FilterValues = subnetNames\<rparr>,
                             \<lparr>FilterName = ''vpc-id'', FilterValues = [vpcID t]\<rparr>]\<rparr>)
                 = Inr subnetsByName"
    and found: "found = map (\<lambda>subnet. StringValue (SubnetId subnet)) (subnetsByID @ subnetsByName)"
  shows "fst (resolveSubnetIDsViaNameOrIDSlice t subnetNameOrIDs) =
           (if length found = length subnetNameOrIDs then Inr found
            else Inl (CouldntFindAllSubnets subnetNameOrIDs found))"
proof (cases "subnetIDs = []")
  case True
  note noIDs = this
  show ?thesis
  proof (cases "subnetNames = []")
    case True
    with noIDs byID byName show ?thesis
      unfolding found resolveSubnetIDsViaNameOrIDSlice_def ids [symmetric] names [symmetric]
      by (simp add: succeed_def failWith_def ids [symmetric] names [symmetric] o_def)
  next
    case False
    with noIDs byID byName show ?thesis
      unfolding found resolveSubnetIDsViaNameOrIDSlice_def
      by (simp add: succeed_def failWith_def invoke_def ids [symmetric] names [symmetric] o_def)
  qed
next
  case False
  note someIDs = this
  show ?thesis
  proof (cases "subnetNames = []")
    case True
    with someIDs byID byName show ?thesis
      unfolding found resolveSubnetIDsViaNameOrIDSlice_def
      by (simp add: succeed_def failWith_def invoke_def ids [symmetric] names [symmetric] o_def)
  next
    case False
    with someIDs byID byName show ?thesis
      unfolding found resolveSubnetIDsViaNameOrIDSlice_def
      by (simp add: succeed_def failWith_def invoke_def ids [symmetric] names [symmetric] o_def)
  qed
qed

lemma resolveSecurityGroupIDs_run:
  assumes ids: "sgIDs = filter (\<lambda>nameOrID. HasPrefix nameOrID ''sg-'') sgNameOrIDs"
    and names: "sgNames = filter (\<lambda>nameOrID. \<not> HasPrefix nameOrID ''sg-'') sgNameOrIDs"
    and byID: "(if sgIDs = [] then Inr []
                else DescribeSecurityGroupsAsList (ec2Client t) \<lparr>GroupIds = sgIDs, GroupFilters = []\<rparr>)
               = Inr sgsByID"
    and byName: "(if sgNames = [] then Inr []
                  else DescribeSecurityGroupsAsList (ec2Client t)
                         \<lparr>GroupIds = [], GroupFilters =
                            [\<lparr>FilterName = ''tag:Name'', FilterValues = sgNames\<rparr>,
                             \<lparr>FilterName = ''vpc-id'', FilterValues = [vpcID t]\<rparr>]\<rparr>)
                 = Inr sgsByName"
    and found: "found = map (\<lambda>sg. StringValue (GroupId sg)) (sgsByID @ sgsByName)"
  shows "fst (resolveSecurityGroupIDsViaNameOrIDSlice t sgNameOrIDs) =
           (if length found = length sgNameOrIDs then Inr found
            else Inl (CouldntFindAllSecurityGroups sgNameOrIDs found))"
proof (cases "sgIDs = []")
  case True
  note noIDs = this
  show ?thesis
  proof (cases "sgNames = []")
    case True
    with noIDs byID byName show ?thesis
      unfolding found resolveSecurityGroupIDsViaNameOrIDSlice_def
      by (simp add: succeed_def failWith_def ids [symmetric] names [symmetric] o_def)
  next
    case False
    with noIDs byID byName show ?thesis
      unfolding found resolveSecurityGroupIDsViaNameOrIDSlice_def
      by (simp add: succeed_def failWith_def invoke_def ids [symmetric] names [symmetric] o_def)
  qed
next
  case False
  note someIDs = this
  show ?thesis
  proof (cases "sgNames = []")
    case True
    with someIDs byID byName show ?thesis
      unfolding found resolveSecurityGroupIDsViaNameOrIDSlice_def
      by (simp add: succeed_def failWith_def invoke_def ids [symmetric] names [symmetric] o_def)
  next
    case False
    with someIDs byID byName show ?thesis
      unfolding found resolveSecurityGroupIDsViaNameOrIDSlice_def
      by (simp add: succeed_def failWith_def invoke_def ids [symmetric] names [symmetric] o_def)
  qed
qed

text \<open>
  Claim C2. Take a list of tokens handed to the subnet resolver or to the security group
  resolver, and let the batched lookups that the resolver makes (by ID when some token is an
  ID, by name tag within the VPC when some token is a name) return their entries. The
  resolver succeeds if and only if the number of entries returned equals the number of
  tokens, and then returns the IDs of the entries; otherwise it fails with an error that
  carries the tokens as they were passed and the IDs of the entries found.
\<close>

theorem resolvers_complete:
  assumes "subnetIDs = filter (\<lambda>nameOrID. HasPrefix nameOrID ''subnet-'') subnetNameOrIDs"
    and "subnetNames = filter (\<lambda>nameOrID. \<not> HasPrefix nameOrID ''subnet-'') subnetNameOrIDs"
    and "(if subnetIDs = [] then Inr []
          else DescribeSubnetsAsList (ec2Client t) \<lparr>SubnetIds = subnetIDs, SubnetFilters = []\<rparr>)
         = Inr subnetsByID"
    and "(if subnetNames = [] then Inr []
          else DescribeSubnetsAsList (ec2Client t)
                 \<lparr>SubnetIds = [], SubnetFilters =
                    [\<lparr>FilterName = ''tag:Name'', FilterValues = subnetNames\<rparr>,
                     \<lparr>FilterName = ''vpc-id'', FilterValues = [vpcID t]\<rparr>]\<rparr>)
         = Inr subnetsByName"
    and "foundSubnetIDs = map (\<lambda>subnet. StringValue (SubnetId subnet)) (subnetsByID @ subnetsByName)"
    and "sgIDs = filter (\<lambda>nameOrID. HasPrefix nameOrID ''sg-'') sgNameOrIDs"
    and "sgNames = filter (\<lambda>nameOrID. \<not> HasPrefix nameOrID ''sg-'') sgNameOrIDs"
    and "(if sgIDs = [] then Inr []
          else DescribeSecurityGroupsAsList (ec2Client t) \<lparr>GroupIds = sgIDs, GroupFilters = []\<rparr>)
         = Inr sgsByID"
    and "(if sgNames = [] then Inr []
          else DescribeSecurityGroupsAsList (ec2Client t)
                 \<lparr>GroupIds = [], GroupFilters =
                    [\<lparr>FilterName = ''tag:Name'', FilterValues = sgNames\<rparr>,
                     \<lparr>FilterName = ''vpc-id'', FilterValues = [vpcID t]\<rparr>]\<rparr>)
         = Inr sgsByName"
    and "foundSGIDs = map (\<lambda>sg. StringValue (GroupId sg)) (sgsByID @ sgsByName)"
  shows "((\<exists>resolved. fst (resolveSubnetIDsViaNameOrIDSlice t subnetNameOrIDs) = Inr resolved)
            \<longleftrightarrow> length foundSubnetIDs = length subnetNameOrIDs)
       \<and> (length foundSubnetIDs = length subnetNameOrIDs
            \<longrightarrow> fst (resolveSubnetIDsViaNameOrIDSlice t subnetNameOrIDs) = Inr foundSubnetIDs)
       \<and> (length foundSubnetIDs \<noteq> length subnetNameOrIDs
            \<longrightarrow> fst (resolveSubnetIDsViaNameOrIDSlice t subnetNameOrIDs)
                  = Inl (CouldntFindAllSubnets subnetNameOrIDs foundSubnetIDs))
       \<and> ((\<exists>resolved. fst (resolveSecurityGroupIDsViaNameOrIDSlice t sgNameOrIDs) = Inr resolved)
            \<longleftrightarrow> length foundSGIDs = length sgNameOrIDs)
       \<and> (length foundSGIDs = length sgNameOrIDs
            \<longrightarrow> fst (resolveSecurityGroupIDsViaNameOrIDSlice t sgNameOrIDs) = Inr foundSGIDs)
       \<and> (length foundSGIDs \<noteq> length sgNameOrIDs
            \<longrightarrow> fst (resolveSecurityGroupIDsViaNameOrIDSlice t sgNameOrIDs)
                  = Inl (CouldntFindAllSecurityGroups sgNameOrIDs foundSGIDs))"
proof -
  have subnets: "fst (resolveSubnetIDsViaNameOrIDSlice t subnetNameOrIDs) =
      (if length foundSubnetIDs = length subnetNameOrIDs then Inr foundSubnetIDs
       else Inl (CouldntFindAllSubnets subnetNameOrIDs foundSubnetIDs))"
    using assms(1-5) by (rule resolveSubnetIDs_run)
  have sgs: "fst (resolveSecurityGroupIDsViaNameOrIDSlice t sgNameOrIDs) =
      (if length foundSGIDs = length sgNameOrIDs then Inr foundSGIDs
       else Inl (CouldntFindAllSecurityGroups sgNameOrIDs foundSGIDs))"
    using assms(6-10) by (rule resolveSecurityGroupIDs_run)
  show ?thesis unfolding subnets sgs by simp
qed

theorem resolvers_complete_witness:
  "fst (resolveSubnetIDsViaNameOrIDSlice (exampleTask (explicitGroup ''g'') [] [])
          [''subnet-1'', ''red'', ''green''])
     = Inl (CouldntFindAllSubnets [''subnet-1'', ''red'', ''green''] [''subnet-1'', ''subnet-2''])
   \<and> fst (resolveSecurityGroupIDsViaNameOrIDSlice (exampleTask (explicitGroup ''g'') [] [])
          [''sg-1'', ''db''])
     = Inr [''sg-1'', ''sg-2'']"
proof -
  let ?t = "exampleTask (explicitGroup ''g'') [] []"
  have h1: "[''subnet-1''] = filter (\<lambda>nameOrID. HasPrefix nameOrID ''subnet-'')
      [''subnet-1'', ''red'', ''green'']"
    by (simp add: HasPrefix_def)
  have h2: "[''red'', ''green''] = filter (\<lambda>nameOrID. \<not> HasPrefix nameOrID ''subnet-'')
      [''subnet-1'', ''red'', ''green'']"
    by (simp add: HasPrefix_def)
  have h3: "(if [''subnet-1''] = [] then Inr []
      else DescribeSubnetsAsList (ec2Client ?t) \<lparr>SubnetIds = [''subnet-1''], SubnetFilters = []\<rparr>)
      = Inr [\<lparr>SubnetId = Some ''subnet-1'', AvailabilityZone = Some ''us-west-2a''\<rparr>]"
    by code_simp
  have h4: "(if [''red'', ''green''] = [] then Inr []
      else DescribeSubnetsAsList (ec2Client ?t)
             \<lparr>SubnetIds = [], SubnetFilters =
                [\<lparr>FilterName = ''tag:Name'', FilterValues = [''red'', ''green'']\<rparr>,
                 \<lparr>FilterName = ''vpc-id'', FilterValues = [vpcID ?t]\<rparr>]\<rparr>)
      = Inr [\<lparr>SubnetId = Some ''subnet-2'', AvailabilityZone = Some ''us-west-2b''\<rparr>]"
    by code_simp
  have h5: "[''subnet-1'', ''subnet-2''] = map (\<lambda>subnet. StringValue (SubnetId subnet))
      ([\<lparr>SubnetId = Some ''subnet-1'', AvailabilityZone = Some ''us-west-2a''\<rparr>]
       @ [\<lparr>SubnetId = Some ''subnet-2'', AvailabilityZone = Some ''us-west-2b''\<rparr>])"
    by (simp add: StringValue_def)
  have h6: "[''sg-1''] = filter (\<lambda>nameOrID. HasPrefix nameOrID ''sg-'') [''sg-1'', ''db'']"
    by (simp add: HasPrefix_def)
  have h7: "[''db''] = filter (\<lambda>nameOrID. \<not> HasPrefix nameOrID ''sg-'') [''sg-1'', ''db'']"
    by (simp add: HasPrefix_def)
  have h8: "(if [''sg-1''] = [] then Inr []
      else DescribeSecurityGroupsAsList (ec2Client ?t) \<lparr>GroupIds = [''sg-1''], GroupFilters = []\<rparr>)
      = Inr [\<lparr>GroupId = Some ''sg-1''\<rparr>]"
    by code_simp
  have h9: "(if [''db''] = [] then Inr []
      else DescribeSecurityGroupsAsList (ec2Client ?t)
             \<lparr>GroupIds = [], GroupFilters =
                [\<lparr>FilterName = ''tag:Name'', FilterValues = [''db'']\<rparr>,
                 \<lparr>FilterName = ''vpc-id'', FilterValues = [vpcID ?t]\<rparr>]\<rparr>)
      = Inr [\<lparr>GroupId = Some ''sg-2''\<rparr>]"
    by code_simp
  have h10: "[''sg-1'', ''sg-2''] = map (\<lambda>sg. StringValue (GroupId sg))
      ([\<lparr>GroupId = Some ''sg-1''\<rparr>] @ [\<lparr>GroupId = Some ''sg-2''\<rparr>])"
    by (simp add: StringValue_def)
  from resolvers_complete [OF h1 h2 h3 h4 h5 h6 h7 h8 h9 h10] show ?thesis
    by simp
qed

subsection \<open>Set-valued fields\<close>

lemma collectSlices_map_filter:
  "collectSlices p sfx ings
     = List.map_filter (\<lambda>ing. ParseStringSliceAnnotation p sfx (Annotations ing)) ings"
  by (induction ings) (auto simp: map_filter_simps split: option.splits)

lemma collectSlices_specified:
  "collectSlices (annotationParser t) sfx (Members (ingGroup t)) = specifiedSlices t sfx"
  by (simp add: collectSlices_map_filter specifiedSlices_def)














subsection \<open>Explicit lists and fallbacks\<close>

lemma subnets_unset:
  assumes "specifiedSlices t IngressSuffixSubnets = []"
  shows "buildLoadBalancerSubnetMappings t scheme =
           (case DiscoverSubnets (subnetsResolver t) scheme of
              Inl err \<Rightarrow> (Inl err, [CallDiscoverSubnets scheme])
            | Inr discovered \<Rightarrow>
                (if length discovered < 2
                 then Inl (InsufficientSubnets (map (\<lambda>subnet. StringValue (SubnetId subnet)) discovered))
                 else Inr (map (\<lambda>subnet. \<lparr>SubnetID = StringValue (SubnetId subnet)\<rparr>) discovered),
                 [CallDiscoverSubnets scheme]))"
  using assms
  by (simp add: buildLoadBalancerSubnetMappings_def collectSlices_specified invoke_def
      succeed_def failWith_def buildLoadBalancerSubnetMappingsWithSubnetIDs_def o_def
      split: sum.splits)

text \<open>
  Claim C3, as stated, fails: when no member specifies subnets and discovery returns two
  subnets of the same availability zone, the build succeeds. The source counts the
  discovered subnets and does not look at their zones; which subnets are offered is left to
  subnet discovery.
\<close>

theorem same_zone_counterexample:
  "fst (buildLoadBalancerSubnetMappings (exampleTask (explicitGroup ''g'') [noAnnotations]
          [\<lparr>SubnetId = Some ''subnet-1'', AvailabilityZone = Some ''us-west-2a''\<rparr>,
           \<lparr>SubnetId = Some ''subnet-3'', AvailabilityZone = Some ''us-west-2a''\<rparr>]) ''internal'')
     = Inr [\<lparr>SubnetID = ''subnet-1''\<rparr>, \<lparr>SubnetID = ''subnet-3''\<rparr>]
   \<and> \<not> distinct (map AvailabilityZone
          [\<lparr>SubnetId = Some ''subnet-1'', AvailabilityZone = Some ''us-west-2a''\<rparr>,
           \<lparr>SubnetId = Some ''subnet-3'', AvailabilityZone = Some ''us-west-2a''\<rparr>])"
  by (simp add: buildLoadBalancerSubnetMappings_def exampleTask_def exampleParser_def
      noAnnotations_def invoke_def succeed_def failWith_def StringValue_def
      buildLoadBalancerSubnetMappingsWithSubnetIDs_def)

text \<open>
  Claim C3, amended. When no member specifies subnets and discovery returns its entries, the
  build succeeds if and only if discovery returned at least two entries, and then maps each
  entry to a subnet mapping, in order; with fewer than two entries it fails with an error
  that names the IDs of the entries found. The zones of the entries are not checked here.
  An error of discovery itself is handed on.
\<close>

theorem discovery_fallback:
  "specifiedSlices t IngressSuffixSubnets = [] \<longrightarrow>
     (DiscoverSubnets (subnetsResolver t) scheme = Inr discovered \<longrightarrow>
        ((\<exists>subnetMappings. fst (buildLoadBalancerSubnetMappings t scheme) = Inr subnetMappings)
           \<longleftrightarrow> 2 \<le> length discovered)
        \<and> (2 \<le> length discovered \<longrightarrow>
             fst (buildLoadBalancerSubnetMappings t scheme)
               = Inr (map (\<lambda>subnet. \<lparr>SubnetID = StringValue (SubnetId subnet)\<rparr>) discovered))
        \<and> (length discovered < 2 \<longrightarrow>
             fst (buildLoadBalancerSubnetMappings t scheme)
               = Inl (InsufficientSubnets
                        (map (\<lambda>subnet. StringValue (SubnetId subnet)) discovered))))
     \<and> (DiscoverSubnets (subnetsResolver t) scheme = Inl err \<longrightarrow>
          fst (buildLoadBalancerSubnetMappings t scheme) = Inl err)"
  by (auto simp: subnets_unset)

theorem discovery_fallback_witness:
  "fst (buildLoadBalancerSubnetMappings (exampleTask (explicitGroup ''g'') [noAnnotations]
          [\<lparr>SubnetId = Some ''subnet-1'', AvailabilityZone = Some ''us-west-2a''\<rparr>]) ''internal'')
     = Inl (InsufficientSubnets [''subnet-1''])
   \<and> fst (buildLoadBalancerSubnetMappings (exampleTask (explicitGroup ''g'') [noAnnotations]
          [\<lparr>SubnetId = Some ''subnet-1'', AvailabilityZone = Some ''us-west-2a''\<rparr>,
           \<lparr>SubnetId = Some ''subnet-2'', AvailabilityZone = Some ''us-west-2b''\<rparr>]) ''internal'')
     = Inr [\<lparr>SubnetID = ''subnet-1''\<rparr>, \<lparr>SubnetID = ''subnet-2''\<rparr>]"
proof -
  let ?one = "[\<lparr>SubnetId = Some ''subnet-1'', AvailabilityZone = Some ''us-west-2a''\<rparr>]"
  let ?two = "[\<lparr>SubnetId = Some ''subnet-1'', AvailabilityZone = Some ''us-west-2a''\<rparr>,
           \<lparr>SubnetId = Some ''subnet-2'', AvailabilityZone = Some ''us-west-2b''\<rparr>]"
  let ?t1 = "exampleTask (explicitGroup ''g'') [noAnnotations] ?one"
  let ?t2 = "exampleTask (explicitGroup ''g'') [noAnnotations] ?two"
  note defs = specifiedSlices_def exampleTask_def exampleParser_def noAnnotations_def
    map_filter_simps
  have u1: "specifiedSlices ?t1 IngressSuffixSubnets = []"
    and u2: "specifiedSlices ?t2 IngressSuffixSubnets = []"
    by (simp_all add: defs)
  have d1: "DiscoverSubnets (subnetsResolver ?t1) ''internal'' = Inr ?one"
    and d2: "DiscoverSubnets (subnetsResolver ?t2) ''internal'' = Inr ?two"
    by (simp_all add: exampleTask_def)
  from discovery_fallback [of ?t1 "''internal''" ?one] u1 d1
  have a: "fst (buildLoadBalancerSubnetMappings ?t1 ''internal'')
      = Inl (InsufficientSubnets [''subnet-1''])"
    by (simp add: StringValue_def)
  from discovery_fallback [of ?t2 "''internal''" ?two] u2 d2
  have b: "fst (buildLoadBalancerSubnetMappings ?t2 ''internal'')
      = Inr [\<lparr>SubnetID = ''subnet-1''\<rparr>, \<lparr>SubnetID = ''subnet-2''\<rparr>]"
    by (simp add: StringValue_def)
  from a b show ?thesis by (rule conjI)
qed






















subsection \<open>The specification\<close>

lemma spec_scheme_fails:
  "buildLoadBalancerScheme t = Inl err
     \<Longrightarrow> fst (buildLoadBalancerSpec hash t l) = (emptyLoadBalancerSpec, Some err)"
  by (simp add: buildLoadBalancerSpec_def)

lemma spec_ip_fails:
  "buildLoadBalancerScheme t = Inr scheme \<Longrightarrow> buildLoadBalancerIPAddressType t = Inl err
     \<Longrightarrow> fst (buildLoadBalancerSpec hash t l) = (emptyLoadBalancerSpec, Some err)"
  by (simp add: buildLoadBalancerSpec_def)

lemma spec_subnets_fail:
  "buildLoadBalancerScheme t = Inr scheme \<Longrightarrow> buildLoadBalancerIPAddressType t = Inr ip
     \<Longrightarrow> fst (buildLoadBalancerSubnetMappings t scheme) = Inl err
     \<Longrightarrow> fst (buildLoadBalancerSpec hash t l) = (emptyLoadBalancerSpec, Some err)"
  by (cases "buildLoadBalancerSubnetMappings t scheme") (simp add: buildLoadBalancerSpec_def)

lemma spec_securityGroups_fail:
  "buildLoadBalancerScheme t = Inr scheme \<Longrightarrow> buildLoadBalancerIPAddressType t = Inr ip
     \<Longrightarrow> fst (buildLoadBalancerSubnetMappings t scheme) = Inr sm
     \<Longrightarrow> fst (buildLoadBalancerSecurityGroups t l ip) = Inl err
     \<Longrightarrow> fst (buildLoadBalancerSpec hash t l) = (emptyLoadBalancerSpec, Some err)"
  by (cases "buildLoadBalancerSubnetMappings t scheme";
      cases "buildLoadBalancerSecurityGroups t l ip")
     (simp add: buildLoadBalancerSpec_def)

lemma spec_attributes_fail:
  "buildLoadBalancerScheme t = Inr scheme \<Longrightarrow> buildLoadBalancerIPAddressType t = Inr ip
     \<Longrightarrow> fst (buildLoadBalancerSubnetMappings t scheme) = Inr sm
     \<Longrightarrow> fst (buildLoadBalancerSecurityGroups t l ip) = Inr sg
     \<Longrightarrow> buildLoadBalancerAttributes t = Inl err
     \<Longrightarrow> fst (buildLoadBalancerSpec hash t l) = (emptyLoadBalancerSpec, Some err)"
  by (cases "buildLoadBalancerSubnetMappings t scheme";
      cases "buildLoadBalancerSecurityGroups t l ip")
     (simp add: buildLoadBalancerSpec_def)

lemma spec_tags_fail:
  "buildLoadBalancerScheme t = Inr scheme \<Longrightarrow> buildLoadBalancerIPAddressType t = Inr ip
     \<Longrightarrow> fst (buildLoadBalancerSubnetMappings t scheme) = Inr sm
     \<Longrightarrow> fst (buildLoadBalancerSecurityGroups t l ip) = Inr sg
     \<Longrightarrow> buildLoadBalancerAttributes t = Inr attrs
     \<Longrightarrow> buildLoadBalancerTags t = Inl err
     \<Longrightarrow> fst (buildLoadBalancerSpec hash t l) = (emptyLoadBalancerSpec, Some err)"
  by (cases "buildLoadBalancerSubnetMappings t scheme";
      cases "buildLoadBalancerSecurityGroups t l ip")
     (simp add: buildLoadBalancerSpec_def)

lemma spec_succeeds:
  "buildLoadBalancerScheme t = Inr scheme \<Longrightarrow> buildLoadBalancerIPAddressType t = Inr ip
     \<Longrightarrow> fst (buildLoadBalancerSubnetMappings t scheme) = Inr sm
     \<Longrightarrow> fst (buildLoadBalancerSecurityGroups t l ip) = Inr sg
     \<Longrightarrow> buildLoadBalancerAttributes t = Inr attrs
     \<Longrightarrow> buildLoadBalancerTags t = Inr tags
     \<Longrightarrow> fst (buildLoadBalancerSpec hash t l) =
           (\<lparr>specName = buildLoadBalancerName hash t scheme,
             specType = LoadBalancerTypeApplication,
             specScheme = Some scheme,
             specIPAddressType = Some ip,
             specSubnetMappings = sm,
             specSecurityGroups = sg,
             specLoadBalancerAttributes = attrs,
             specTags = tags\<rparr>, None)"
  by (cases "buildLoadBalancerSubnetMappings t scheme";
      cases "buildLoadBalancerSecurityGroups t l ip")
     (simp add: buildLoadBalancerSpec_def)

lemma spec_cases:
  "(\<exists>err. fst (buildLoadBalancerSpec hash t l) = (emptyLoadBalancerSpec, Some err))
   \<or> (\<exists>scheme ip sm sg attrs tags.
         buildLoadBalancerScheme t = Inr scheme \<and> buildLoadBalancerIPAddressType t = Inr ip
         \<and> fst (buildLoadBalancerSubnetMappings t scheme) = Inr sm
         \<and> fst (buildLoadBalancerSecurityGroups t l ip) = Inr sg
         \<and> buildLoadBalancerAttributes t = Inr attrs
         \<and> buildLoadBalancerTags t = Inr tags
         \<and> fst (buildLoadBalancerSpec hash t l) =
           (\<lparr>specName = buildLoadBalancerName hash t scheme,
             specType = LoadBalancerTypeApplication,
             specScheme = Some scheme,
             specIPAddressType = Some ip,
             specSubnetMappings = sm,
             specSecurityGroups = sg,
             specLoadBalancerAttributes = attrs,
             specTags = tags\<rparr>, None))"
proof (cases "buildLoadBalancerScheme t")
  case (Inl err)
  then have "fst (buildLoadBalancerSpec hash t l) = (emptyLoadBalancerSpec, Some err)"
    by (rule spec_scheme_fails)
  then show ?thesis by blast
next
  case scheme: (Inr scheme)
  show ?thesis
  proof (cases "buildLoadBalancerIPAddressType t")
    case (Inl err)
    with scheme have "fst (buildLoadBalancerSpec hash t l) = (emptyLoadBalancerSpec, Some err)"
      by (rule spec_ip_fails)
    then show ?thesis by blast
  next
    case ip: (Inr ip)
    show ?thesis
    proof (cases "fst (buildLoadBalancerSubnetMappings t scheme)")
      case (Inl err)
      with scheme ip
      have "fst (buildLoadBalancerSpec hash t l) = (emptyLoadBalancerSpec, Some err)"
        by (rule spec_subnets_fail)
      then show ?thesis by blast
    next
      case sm: (Inr sm)
      show ?thesis
      proof (cases "fst (buildLoadBalancerSecurityGroups t l ip)")
        case (Inl err)
        with scheme ip sm
        have "fst (buildLoadBalancerSpec hash t l) = (emptyLoadBalancerSpec, Some err)"
          by (rule spec_securityGroups_fail)
        then show ?thesis by blast
      next
        case sg: (Inr sg)
        show ?thesis
        proof (cases "buildLoadBalancerAttributes t")
          case (Inl err)
          with scheme ip sm sg
          have "fst (buildLoadBalancerSpec hash t l) = (emptyLoadBalancerSpec, Some err)"
            by (rule spec_attributes_fail)
          then show ?thesis by blast
        next
          case attrs: (Inr attrs)
          show ?thesis
          proof (cases "buildLoadBalancerTags t")
            case (Inl err)
            with scheme ip sm sg attrs
            have "fst (buildLoadBalancerSpec hash t l) = (emptyLoadBalancerSpec, Some err)"
              by (rule spec_tags_fail)
            then show ?thesis by blast
          next
            case tags: (Inr tags)
            from scheme ip sm sg attrs tags
            have "fst (buildLoadBalancerSpec hash t l) =
                (\<lparr>specName = buildLoadBalancerName hash t scheme,
                  specType = LoadBalancerTypeApplication,
                  specScheme = Some scheme,
                  specIPAddressType = Some ip,
                  specSubnetMappings = sm,
                  specSecurityGroups = sg,
                  specLoadBalancerAttributes = attrs,
                  specTags = tags\<rparr>, None)"
              by (rule spec_succeeds)
            with scheme ip sm sg attrs tags show ?thesis by blast
          qed
        qed
      qed
    qed
  qed
qed

text \<open>
  Claim C8. The fields are evaluated in the order scheme, IP address type, subnet mappings,
  security groups, attributes, tags. When an evaluation fails, the build returns that error
  together with the zero specification \<^verbatim>\<open>LoadBalancerSpec{}\<close>, whatever the fields before it
  gave: whenever an error is returned, the specification returned is the zero one. A
  specification other than the zero one is returned only without an error, and then all six
  evaluations succeeded; when they all succeed, the specification holds their results.
\<close>

theorem spec_all_or_nothing:
  "(buildLoadBalancerScheme t = Inl err \<longrightarrow>
      fst (buildLoadBalancerSpec hash t l) = (emptyLoadBalancerSpec, Some err))
   \<and> (buildLoadBalancerScheme t = Inr scheme \<and> buildLoadBalancerIPAddressType t = Inl err \<longrightarrow>
      fst (buildLoadBalancerSpec hash t l) = (emptyLoadBalancerSpec, Some err))
   \<and> (buildLoadBalancerScheme t = Inr scheme \<and> buildLoadBalancerIPAddressType t = Inr ip
        \<and> fst (buildLoadBalancerSubnetMappings t scheme) = Inl err \<longrightarrow>
      fst (buildLoadBalancerSpec hash t l) = (emptyLoadBalancerSpec, Some err))
   \<and> (buildLoadBalancerScheme t = Inr scheme \<and> buildLoadBalancerIPAddressType t = Inr ip
        \<and> fst (buildLoadBalancerSubnetMappings t scheme) = Inr sm
        \<and> fst (buildLoadBalancerSecurityGroups t l ip) = Inl err \<longrightarrow>
      fst (buildLoadBalancerSpec hash t l) = (emptyLoadBalancerSpec, Some err))
   \<and> (buildLoadBalancerScheme t = Inr scheme \<and> buildLoadBalancerIPAddressType t = Inr ip
        \<and> fst (buildLoadBalancerSubnetMappings t scheme) = Inr sm
        \<and> fst (buildLoadBalancerSecurityGroups t l ip) = Inr sg
        \<and> buildLoadBalancerAttributes t = Inl err \<longrightarrow>
      fst (buildLoadBalancerSpec hash t l) = (emptyLoadBalancerSpec, Some err))
   \<and> (buildLoadBalancerScheme t = Inr scheme \<and> buildLoadBalancerIPAddressType t = Inr ip
        \<and> fst (buildLoadBalancerSubnetMappings t scheme) = Inr sm
        \<and> fst (buildLoadBalancerSecurityGroups t l ip) = Inr sg
        \<and> buildLoadBalancerAttributes t = Inr attrs
        \<and> buildLoadBalancerTags t = Inl err \<longrightarrow>
      fst (buildLoadBalancerSpec hash t l) = (emptyLoadBalancerSpec, Some err))
   \<and> (buildLoadBalancerScheme t = Inr scheme \<and> buildLoadBalancerIPAddressType t = Inr ip
        \<and> fst (buildLoadBalancerSubnetMappings t scheme) = Inr sm
        \<and> fst (buildLoadBalancerSecurityGroups t l ip) = Inr sg
        \<and> buildLoadBalancerAttributes t = Inr attrs
        \<and> buildLoadBalancerTags t = Inr tags \<longrightarrow>
      fst (buildLoadBalancerSpec hash t l) =
        (\<lparr>specName = buildLoadBalancerName hash t scheme,
          specType = LoadBalancerTypeApplication,
          specScheme = Some scheme,
          specIPAddressType = Some ip,
          specSubnetMappings = sm,
          specSecurityGroups = sg,
          specLoadBalancerAttributes = attrs,
          specTags = tags\<rparr>, None))
   \<and> (snd (fst (buildLoadBalancerSpec hash t l)) \<noteq> None \<longrightarrow>
        fst (fst (buildLoadBalancerSpec hash t l)) = emptyLoadBalancerSpec)
   \<and> (fst (fst (buildLoadBalancerSpec hash t l)) \<noteq> emptyLoadBalancerSpec \<longrightarrow>
        snd (fst (buildLoadBalancerSpec hash t l)) = None
        \<and> (\<exists>scheme' ip' sm' sg' attrs' tags'.
              buildLoadBalancerScheme t = Inr scheme'
              \<and> buildLoadBalancerIPAddressType t = Inr ip'
              \<and> fst (buildLoadBalancerSubnetMappings t scheme') = Inr sm'
              \<and> fst (buildLoadBalancerSecurityGroups t l ip') = Inr sg'
              \<and> buildLoadBalancerAttributes t = Inr attrs'
              \<and> buildLoadBalancerTags t = Inr tags'))"
proof -
  have partial: "snd (fst (buildLoadBalancerSpec hash t l)) \<noteq> None \<longrightarrow>
        fst (fst (buildLoadBalancerSpec hash t l)) = emptyLoadBalancerSpec"
    using spec_cases [of hash t l] by auto
  have populated: "fst (fst (buildLoadBalancerSpec hash t l)) \<noteq> emptyLoadBalancerSpec \<longrightarrow>
        snd (fst (buildLoadBalancerSpec hash t l)) = None
        \<and> (\<exists>scheme' ip' sm' sg' attrs' tags'.
              buildLoadBalancerScheme t = Inr scheme'
              \<and> buildLoadBalancerIPAddressType t = Inr ip'
              \<and> fst (buildLoadBalancerSubnetMappings t scheme') = Inr sm'
              \<and> fst (buildLoadBalancerSecurityGroups t l ip') = Inr sg'
              \<and> buildLoadBalancerAttributes t = Inr attrs'
              \<and> buildLoadBalancerTags t = Inr tags')"
    using spec_cases [of hash t l] by auto
  show ?thesis
    using partial populated
      spec_scheme_fails [of t err hash l] spec_ip_fails [of t scheme err hash l]
      spec_subnets_fail [of t scheme ip err hash l]
      spec_securityGroups_fail [of t scheme ip sm l err hash]
      spec_attributes_fail [of t scheme ip sm l sg err hash]
      spec_tags_fail [of t scheme ip sm l sg attrs err hash]
      spec_succeeds [of t scheme ip sm l sg attrs tags hash]
    by blast
qed

theorem spec_all_or_nothing_witness:
  "fst (buildLoadBalancerSpec exampleDigest
    (exampleTask (explicitGroup ''g'')
     [noAnnotations\<lparr>srcScheme := Some ''public''\<rparr>] []) ())
     = (emptyLoadBalancerSpec, Some (UnknownScheme ''public''))
   \<and> fst (buildLoadBalancerSpec exampleDigest
    (exampleTask (explicitGroup ''g'')
     [noAnnotations\<lparr>srcIPAddressType := Some ''ipv6''\<rparr>] []) ())
     = (emptyLoadBalancerSpec, Some (UnknownIPAddressType ''ipv6''))
   \<and> fst (buildLoadBalancerSpec exampleDigest
    (exampleTask (explicitGroup ''g'')
     [noAnnotations] []) ())
     = (emptyLoadBalancerSpec, Some (InsufficientSubnets []))
   \<and> fst (buildLoadBalancerSpec exampleDigest
    (exampleTask (explicitGroup ''g'')
     [noAnnotations\<lparr>srcSubnets := Some [''subnet-1'', ''green''],
        srcSecurityGroups := Some [''missing'']\<rparr>] []) ())
     = (emptyLoadBalancerSpec, Some (CouldntFindAllSecurityGroups [''missing''] []))
   \<and> fst (buildLoadBalancerSpec exampleDigest
    (exampleTask (explicitGroup ''g'')
     [noAnnotations\<lparr>srcAttributes := Inr [(''a'', ''1'')]\<rparr>,
      noAnnotations\<lparr>srcAttributes := Inr [(''a'', ''2'')]\<rparr>] (map snd exampleSubnets)) ())
     = (emptyLoadBalancerSpec, Some (ConflictingLoadBalancerAttribute ''a'' ''1'' ''2''))
   \<and> fst (buildLoadBalancerSpec exampleDigest
    (exampleTask (explicitGroup ''g'')
     [noAnnotations\<lparr>srcTags := Inr [(''team'', ''web'')]\<rparr>,
      noAnnotations\<lparr>srcTags := Inr [(''team'', ''db'')]\<rparr>] (map snd exampleSubnets)) ())
     = (emptyLoadBalancerSpec, Some (ConflictingTag ''team'' ''web'' ''db''))
   \<and> fst (buildLoadBalancerSpec exampleDigest
    (exampleTask (explicitGroup ''g'')
     [noAnnotations\<lparr>srcScheme := Some ''internal'', srcSubnets := Some [''subnet-1'', ''green''],
        srcSecurityGroups := Some [''sg-1''], srcAttributes := Inr [(''a'', ''1'')],
        srcTags := Inr [(''team'', ''web'')]\<rparr>,
      noAnnotations\<lparr>srcTags := Inr [(''env'', ''prod''), (''team'', ''web'')]\<rparr>] []) ())
     = (\<lparr>specName = ''k8s-g-70726f6467'', specType = ''application'',
         specScheme = Some ''internal'', specIPAddressType = Some ''ipv4'',
         specSubnetMappings = [\<lparr>SubnetID = ''subnet-1''\<rparr>, \<lparr>SubnetID = ''subnet-2''\<rparr>],
         specSecurityGroups = [LiteralStringToken ''sg-1''],
         specLoadBalancerAttributes = [\<lparr>Key = ''a'', Value = ''1''\<rparr>],
         specTags = [(''team'', ''web''), (''env'', ''prod'')]\<rparr>, None)"
proof -
  let ?t1 = "exampleTask (explicitGroup ''g'')
     [noAnnotations\<lparr>srcScheme := Some ''public''\<rparr>] []"
  let ?t2 = "exampleTask (explicitGroup ''g'')
     [noAnnotations\<lparr>srcIPAddressType := Some ''ipv6''\<rparr>] []"
  let ?t3 = "exampleTask (explicitGroup ''g'')
     [noAnnotations] []"
  let ?t4 = "exampleTask (explicitGroup ''g'')
     [noAnnotations\<lparr>srcSubnets := Some [''subnet-1'', ''green''],
        srcSecurityGroups := Some [''missing'']\<rparr>] []"
  let ?t5 = "exampleTask (explicitGroup ''g'')
     [noAnnotations\<lparr>srcAttributes := Inr [(''a'', ''1'')]\<rparr>,
      noAnnotations\<lparr>srcAttributes := Inr [(''a'', ''2'')]\<rparr>] (map snd exampleSubnets)"
  let ?t6 = "exampleTask (explicitGroup ''g'')
     [noAnnotations\<lparr>srcTags := Inr [(''team'', ''web'')]\<rparr>,
      noAnnotations\<lparr>srcTags := Inr [(''team'', ''db'')]\<rparr>] (map snd exampleSubnets)"
  let ?t7 = "exampleTask (explicitGroup ''g'')
     [noAnnotations\<lparr>srcScheme := Some ''internal'', srcSubnets := Some [''subnet-1'', ''green''],
        srcSecurityGroups := Some [''sg-1''], srcAttributes := Inr [(''a'', ''1'')],
        srcTags := Inr [(''team'', ''web'')]\<rparr>,
      noAnnotations\<lparr>srcTags := Inr [(''env'', ''prod''), (''team'', ''web'')]\<rparr>] []"
  have f11: "buildLoadBalancerScheme ?t1
      = Inl (UnknownScheme ''public'')"
    by code_simp
  from spec_all_or_nothing [where t = ?t1
      and hash = exampleDigest
      and l = "()"
      and err = "UnknownScheme ''public''"]
    f11
  have r1: "fst (buildLoadBalancerSpec exampleDigest ?t1 ()) = (emptyLoadBalancerSpec, Some (UnknownScheme ''public''))"
    by simp
  have f21: "buildLoadBalancerScheme ?t2
      = Inr ''internal''"
    by code_simp
  have f22: "buildLoadBalancerIPAddressType ?t2
      = Inl (UnknownIPAddressType ''ipv6'')"
    by code_simp
  from spec_all_or_nothing [where t = ?t2
      and hash = exampleDigest
      and l = "()"
      and err = "UnknownIPAddressType ''ipv6''"
      and scheme = "''internal''"]
    f21 f22
  have r2: "fst (buildLoadBalancerSpec exampleDigest ?t2 ()) = (emptyLoadBalancerSpec, Some (UnknownIPAddressType ''ipv6''))"
    by simp
  have f31: "buildLoadBalancerScheme ?t3
      = Inr ''internal''"
    by code_simp
  have f32: "buildLoadBalancerIPAddressType ?t3
      = Inr ''ipv4''"
    by code_simp
  have f33: "fst (buildLoadBalancerSubnetMappings ?t3 ''internal'')
      = Inl (InsufficientSubnets [])"
    by code_simp
  from spec_all_or_nothing [where t = ?t3
      and hash = exampleDigest
      and l = "()"
      and err = "InsufficientSubnets []"
      and scheme = "''internal''"
      and ip = "''ipv4''"]
    f31 f32 f33
  have r3: "fst (buildLoadBalancerSpec exampleDigest ?t3 ()) = (emptyLoadBalancerSpec, Some (InsufficientSubnets []))"
    by simp
  have f41: "buildLoadBalancerScheme ?t4
      = Inr ''internal''"
    by code_simp
  have f42: "buildLoadBalancerIPAddressType ?t4
      = Inr ''ipv4''"
    by code_simp
  have f43: "fst (buildLoadBalancerSubnetMappings ?t4 ''internal'')
      = Inr [\<lparr>SubnetID = ''subnet-1''\<rparr>, \<lparr>SubnetID = ''subnet-2''\<rparr>]"
    by code_simp
  have f44: "fst (buildLoadBalancerSecurityGroups ?t4 () ''ipv4'')
      = Inl (CouldntFindAllSecurityGroups [''missing''] [])"
    by code_simp
  from spec_all_or_nothing [where t = ?t4
      and hash = exampleDigest
      and l = "()"
      and err = "CouldntFindAllSecurityGroups [''missing''] []"
      and scheme = "''internal''"
      and ip = "''ipv4''"
      and sm = "[\<lparr>SubnetID = ''subnet-1''\<rparr>, \<lparr>SubnetID = ''subnet-2''\<rparr>]"]
    f41 f42 f43 f44
  have r4: "fst (buildLoadBalancerSpec exampleDigest ?t4 ()) = (emptyLoadBalancerSpec, Some (CouldntFindAllSecurityGroups [''missing''] []))"
    by simp
  have f51: "buildLoadBalancerScheme ?t5
      = Inr ''internal''"
    by code_simp
  have f52: "buildLoadBalancerIPAddressType ?t5
      = Inr ''ipv4''"
    by code_simp
  have f53: "fst (buildLoadBalancerSubnetMappings ?t5 ''internal'')
      = Inr [\<lparr>SubnetID = ''subnet-1''\<rparr>, \<lparr>SubnetID = ''subnet-2''\<rparr>]"
    by code_simp
  have f54: "fst (buildLoadBalancerSecurityGroups ?t5 () ''ipv4'')
      = Inr [ManagedGroupIDToken ''ManagedLBSecurityGroup'']"
    by code_simp
  have f55: "buildLoadBalancerAttributes ?t5
      = Inl (ConflictingLoadBalancerAttribute ''a'' ''1'' ''2'')"
    by code_simp
  from spec_all_or_nothing [where t = ?t5
      and hash = exampleDigest
      and l = "()"
      and err = "ConflictingLoadBalancerAttribute ''a'' ''1'' ''2''"
      and scheme = "''internal''"
      and ip = "''ipv4''"
      and sm = "[\<lparr>SubnetID = ''subnet-1''\<rparr>, \<lparr>SubnetID = ''subnet-2''\<rparr>]"
      and sg = "[ManagedGroupIDToken ''ManagedLBSecurityGroup'']"]
    f51 f52 f53 f54 f55
  have r5: "fst (buildLoadBalancerSpec exampleDigest ?t5 ()) = (emptyLoadBalancerSpec, Some (ConflictingLoadBalancerAttribute ''a'' ''1'' ''2''))"
    by simp
  have f61: "buildLoadBalancerScheme ?t6
      = Inr ''internal''"
    by code_simp
  have f62: "buildLoadBalancerIPAddressType ?t6
      = Inr ''ipv4''"
    by code_simp
  have f63: "fst (buildLoadBalancerSubnetMappings ?t6 ''internal'')
      = Inr [\<lparr>SubnetID = ''subnet-1''\<rparr>, \<lparr>SubnetID = ''subnet-2''\<rparr>]"
    by code_simp
  have f64: "fst (buildLoadBalancerSecurityGroups ?t6 () ''ipv4'')
      = Inr [ManagedGroupIDToken ''ManagedLBSecurityGroup'']"
    by code_simp
  have f65: "buildLoadBalancerAttributes ?t6
      = Inr []"
    by code_simp
  have f66: "buildLoadBalancerTags ?t6
      = Inl (ConflictingTag ''team'' ''web'' ''db'')"
    by code_simp
  from spec_all_or_nothing [where t = ?t6
      and hash = exampleDigest
      and l = "()"
      and err = "ConflictingTag ''team'' ''web'' ''db''"
      and scheme = "''internal''"
      and ip = "''ipv4''"
      and sm = "[\<lparr>SubnetID = ''subnet-1''\<rparr>, \<lparr>SubnetID = ''subnet-2''\<rparr>]"
      and sg = "[ManagedGroupIDToken ''ManagedLBSecurityGroup'']"
      and attrs = "[]"]
    f61 f62 f63 f64 f65 f66
  have r6: "fst (buildLoadBalancerSpec exampleDigest ?t6 ()) = (emptyLoadBalancerSpec, Some (ConflictingTag ''team'' ''web'' ''db''))"
    by simp
  have f71: "buildLoadBalancerScheme ?t7
      = Inr ''internal''"
    by code_simp
  have f72: "buildLoadBalancerIPAddressType ?t7
      = Inr ''ipv4''"
    by code_simp
  have f73: "fst (buildLoadBalancerSubnetMappings ?t7 ''internal'')
      = Inr [\<lparr>SubnetID = ''subnet-1''\<rparr>, \<lparr>SubnetID = ''subnet-2''\<rparr>]"
    by code_simp
  have f74: "fst (buildLoadBalancerSecurityGroups ?t7 () ''ipv4'')
      = Inr [LiteralStringToken ''sg-1'']"
    by code_simp
  have f75: "buildLoadBalancerAttributes ?t7
      = Inr [\<lparr>Key = ''a'', Value = ''1''\<rparr>]"
    by code_simp
  have f76: "buildLoadBalancerTags ?t7
      = Inr [(''team'', ''web''), (''env'', ''prod'')]"
    by code_simp
  from spec_all_or_nothing [where t = ?t7
      and hash = exampleDigest
      and l = "()"
      and scheme = "''internal''"
      and ip = "''ipv4''"
      and sm = "[\<lparr>SubnetID = ''subnet-1''\<rparr>, \<lparr>SubnetID = ''subnet-2''\<rparr>]"
      and sg = "[LiteralStringToken ''sg-1'']"
      and attrs = "[\<lparr>Key = ''a'', Value = ''1''\<rparr>]"
      and tags = "[(''team'', ''web''), (''env'', ''prod'')]"]
    f71 f72 f73 f74 f75 f76
  have r7: "fst (buildLoadBalancerSpec exampleDigest ?t7 ()) = (\<lparr>specName = ''k8s-g-70726f6467'', specType = ''application'',
         specScheme = Some ''internal'', specIPAddressType = Some ''ipv4'',
         specSubnetMappings = [\<lparr>SubnetID = ''subnet-1''\<rparr>, \<lparr>SubnetID = ''subnet-2''\<rparr>],
         specSecurityGroups = [LiteralStringToken ''sg-1''],
         specLoadBalancerAttributes = [\<lparr>Key = ''a'', Value = ''1''\<rparr>],
         specTags = [(''team'', ''web''), (''env'', ''prod'')]\<rparr>, None)"
    by (simp add: LoadBalancerTypeApplication_def) (simp add: buildLoadBalancerName_def
        exampleTask_def explicitGroup_def exampleDigest_def EncodeToString_def hextable_def
        isAlnum_def precision_def invalidLoadBalancerNamePattern_def)
  from r1 r2 r3 r4 r5 r6 r7 show ?thesis by simp
qed

subsection \<open>Repeated tokens\<close>










subsection \<open>Map-valued fields\<close>

lemma update_fresh: "map_of al k = None \<Longrightarrow> AList.update k v al = al @ [(k, v)]"
  by (induction al) (auto split: if_splits)

lemma mergeEntries_step:
  assumes keys: "distinct (map fst merged)"
    and seen: "set merged = set seen"
    and ok: "map_of merged k = None \<or> map_of merged k = Some v"
  shows "distinct (map fst (AList.update k v merged))
       \<and> set (AList.update k v merged) = set (seen @ [(k, v)])"
proof -
  from keys have d: "distinct (map fst (AList.update k v merged))"
    by (rule distinct_update)
  from ok show ?thesis
  proof
    assume none: "map_of merged k = None"
    then have "AList.update k v merged = merged @ [(k, v)]" by (rule update_fresh)
    with d seen show ?thesis by simp
  next
    assume some: "map_of merged k = Some v"
    then have same: "AList.update k v merged = merged" by (rule update_triv)
    from some have "(k, v) \<in> set merged" by (rule map_of_SomeD)
    with d seen same show ?thesis by auto
  qed
qed

lemma agree_snoc:
  assumes "agree seen" and "distinct (map fst merged)" and "set merged = set seen"
    and "map_of merged k = None \<or> map_of merged k = Some v"
  shows "agree (seen @ [(k, v)])"
proof -
  have "w = v" if "(k, w) \<in> set seen" for w
  proof -
    from that assms(3) have "(k, w) \<in> set merged" by simp
    with assms(2) have "map_of merged k = Some w" by simp
    with assms(4) show ?thesis by simp
  qed
  with assms(1) show ?thesis
    unfolding agree_def by (auto simp: Ball_def)
qed

lemma mergeEntries_ok:
  assumes "distinct (map fst merged)" and "set merged = set seen" and "agree (seen @ entries)"
  shows "\<exists>merged'. mergeEntries conflict merged entries = Inr merged'
           \<and> distinct (map fst merged') \<and> set merged' = set (seen @ entries)"
  using assms
proof (induction entries arbitrary: merged seen)
  case Nil
  then show ?case by simp
next
  case (Cons kv entries)
  obtain k v where kv: "kv = (k, v)" by (cases kv)
  have ok: "map_of merged k = None \<or> map_of merged k = Some v"
  proof (cases "map_of merged k")
    case None
    then show ?thesis by simp
  next
    case (Some existing)
    then have "(k, existing) \<in> set merged" by (rule map_of_SomeD)
    with Cons.prems(2) have "(k, existing) \<in> set (seen @ kv # entries)" by simp
    moreover have "(k, v) \<in> set (seen @ kv # entries)" using kv by simp
    ultimately have "existing = v"
      using Cons.prems(3) unfolding agree_def by fastforce
    with Some show ?thesis by simp
  qed
  from mergeEntries_step [OF Cons.prems(1,2) ok]
  have keys': "distinct (map fst (AList.update k v merged))"
    and seen': "set (AList.update k v merged) = set (seen @ [(k, v)])"
    by simp_all
  from Cons.prems(3) kv have agree': "agree ((seen @ [(k, v)]) @ entries)" by simp
  from Cons.IH [OF keys' seen' agree']
  obtain merged' where "mergeEntries conflict (AList.update k v merged) entries = Inr merged'"
    and "distinct (map fst merged')" and "set merged' = set ((seen @ [(k, v)]) @ entries)"
    by blast
  with ok kv show ?case by auto
qed

lemma mergeEntries_conflict:
  assumes "distinct (map fst merged)" and "set merged = set seen" and "agree seen"
    and "\<not> agree (seen @ entries)"
  shows "\<exists>k v v'. mergeEntries conflict merged entries = Inl (conflict k v v') \<and> v \<noteq> v'
           \<and> (k, v) \<in> set (seen @ entries) \<and> (k, v') \<in> set (seen @ entries)"
  using assms
proof (induction entries arbitrary: merged seen)
  case Nil
  then show ?case by simp
next
  case (Cons kv entries)
  obtain k v where kv: "kv = (k, v)" by (cases kv)
  show ?case
  proof (cases "map_of merged k = None \<or> map_of merged k = Some v")
    case True
    from mergeEntries_step [OF Cons.prems(1,2) True]
    have keys': "distinct (map fst (AList.update k v merged))"
      and seen': "set (AList.update k v merged) = set (seen @ [(k, v)])"
      by simp_all
    from agree_snoc [OF Cons.prems(3,1,2) True] have agree': "agree (seen @ [(k, v)])" .
    from Cons.prems(4) kv have differ': "\<not> agree ((seen @ [(k, v)]) @ entries)" by simp
    from Cons.IH [OF keys' seen' agree' differ']
    obtain k' w w' where
      run: "mergeEntries conflict (AList.update k v merged) entries = Inl (conflict k' w w')"
      and ne: "w \<noteq> w'" and m1: "(k', w) \<in> set ((seen @ [(k, v)]) @ entries)"
      and m2: "(k', w') \<in> set ((seen @ [(k, v)]) @ entries)"
      by blast
    from True kv have "mergeEntries conflict merged (kv # entries)
        = mergeEntries conflict (AList.update k v merged) entries"
      by auto
    with run have "mergeEntries conflict merged (kv # entries) = Inl (conflict k' w w')"
      by simp
    moreover from m1 kv have "(k', w) \<in> set (seen @ kv # entries)" by simp
    moreover from m2 kv have "(k', w') \<in> set (seen @ kv # entries)" by simp
    ultimately show ?thesis using ne by blast
  next
    case False
    then obtain existing where some: "map_of merged k = Some existing" and ne: "existing \<noteq> v"
      by (cases "map_of merged k") auto
    from some have "(k, existing) \<in> set merged" by (rule map_of_SomeD)
    with Cons.prems(2) have "(k, existing) \<in> set (seen @ kv # entries)" by simp
    moreover have "(k, v) \<in> set (seen @ kv # entries)" using kv by simp
    moreover from some ne kv
    have "mergeEntries conflict merged (kv # entries) = Inl (conflict k existing v)" by simp
    ultimately show ?thesis using ne by blast
  qed
qed

lemma agree_subset: "set xs \<subseteq> set ys \<Longrightarrow> agree ys \<Longrightarrow> agree xs"
  unfolding agree_def by blast

lemma mergeMembers_ok:
  assumes "map (\<lambda>ing. ParseStringMapAnnotation p sfx (Annotations ing)) ings = map Inr raws"
    and "distinct (map fst merged)" and "set merged = set seen"
    and "agree (seen @ concat raws)"
  shows "\<exists>merged'. mergeMembers p sfx conflict merged ings = Inr merged'
           \<and> distinct (map fst merged') \<and> set merged' = set (seen @ concat raws)"
  using assms
proof (induction ings arbitrary: merged seen raws)
  case Nil
  then show ?case by simp
next
  case (Cons ing ings)
  from Cons.prems(1) obtain raw raws' where raws: "raws = raw # raws'"
    and parsed: "ParseStringMapAnnotation p sfx (Annotations ing) = Inr raw"
    and rest: "map (\<lambda>ing. ParseStringMapAnnotation p sfx (Annotations ing)) ings = map Inr raws'"
    by (cases raws) auto
  from Cons.prems(4) raws have "agree (seen @ raw)"
    by (auto elim: agree_subset [rotated])
  from mergeEntries_ok [OF Cons.prems(2,3) this]
  obtain merged1 where run: "mergeEntries conflict merged raw = Inr merged1"
    and keys1: "distinct (map fst merged1)" and seen1: "set merged1 = set (seen @ raw)"
    by blast
  from Cons.prems(4) raws have agree1: "agree ((seen @ raw) @ concat raws')" by simp
  from Cons.IH [OF rest keys1 seen1 agree1]
  obtain merged' where "mergeMembers p sfx conflict merged1 ings = Inr merged'"
    and "distinct (map fst merged')" and "set merged' = set ((seen @ raw) @ concat raws')"
    by blast
  with parsed run raws show ?case by simp
qed

lemma mergeMembers_conflict:
  assumes "map (\<lambda>ing. ParseStringMapAnnotation p sfx (Annotations ing)) ings = map Inr raws"
    and "distinct (map fst merged)" and "set merged = set seen" and "agree seen"
    and "\<not> agree (seen @ concat raws)"
  shows "\<exists>k v v'. mergeMembers p sfx conflict merged ings = Inl (conflict k v v') \<and> v \<noteq> v'
           \<and> (k, v) \<in> set (seen @ concat raws) \<and> (k, v') \<in> set (seen @ concat raws)"
  using assms
proof (induction ings arbitrary: merged seen raws)
  case Nil
  then show ?case by simp
next
  case (Cons ing ings)
  from Cons.prems(1) obtain raw raws' where raws: "raws = raw # raws'"
    and parsed: "ParseStringMapAnnotation p sfx (Annotations ing) = Inr raw"
    and rest: "map (\<lambda>ing. ParseStringMapAnnotation p sfx (Annotations ing)) ings = map Inr raws'"
    by (cases raws) auto
  show ?case
  proof (cases "agree (seen @ raw)")
    case True
    from mergeEntries_ok [OF Cons.prems(2,3) True]
    obtain merged1 where run: "mergeEntries conflict merged raw = Inr merged1"
      and keys1: "distinct (map fst merged1)" and seen1: "set merged1 = set (seen @ raw)"
      by blast
    from Cons.prems(5) raws have differ1: "\<not> agree ((seen @ raw) @ concat raws')" by simp
    from Cons.IH [OF rest keys1 seen1 True differ1]
    obtain k v v' where "mergeMembers p sfx conflict merged1 ings = Inl (conflict k v v')"
      and "v \<noteq> v'" and "(k, v) \<in> set ((seen @ raw) @ concat raws')"
      and "(k, v') \<in> set ((seen @ raw) @ concat raws')"
      by blast
    with parsed run raws show ?thesis by auto
  next
    case False
    from mergeEntries_conflict [OF Cons.prems(2,3,4) False]
    obtain k v v' where "mergeEntries conflict merged raw = Inl (conflict k v v')"
      and "v \<noteq> v'" and "(k, v) \<in> set (seen @ raw)" and "(k, v') \<in> set (seen @ raw)"
      by blast
    with parsed raws show ?thesis by auto
  qed
qed

lemma mergeMembers_parsed:
  "mergeMembers p sfx conflict merged ings = Inr merged'
     \<Longrightarrow> \<exists>raws. map (\<lambda>ing. ParseStringMapAnnotation p sfx (Annotations ing)) ings = map Inr raws"
proof (induction ings arbitrary: merged)
  case Nil
  then show ?case by simp
next
  case (Cons ing ings)
  from Cons.prems obtain raw merged1 where
    parsed: "ParseStringMapAnnotation p sfx (Annotations ing) = Inr raw"
    and "mergeMembers p sfx conflict merged1 ings = Inr merged'"
    by (auto split: sum.splits)
  from Cons.IH [OF this(2)] obtain raws where
    "map (\<lambda>ing. ParseStringMapAnnotation p sfx (Annotations ing)) ings = map Inr raws"
    by blast
  with parsed have
    "map (\<lambda>ing. ParseStringMapAnnotation p sfx (Annotations ing)) (ing # ings) = map Inr (raw # raws)"
    by simp
  then show ?case by blast
qed

lemma agreeD:
  assumes "agree entries" and "(k, v) \<in> set entries" and "(k, v') \<in> set entries"
  shows "v = v'"
proof -
  from assms(1,2)
  have "\<forall>kv' \<in> set entries. fst (k, v) = fst kv' \<longrightarrow> snd (k, v) = snd kv'"
    unfolding agree_def by (rule bspec)
  from this assms(3) have "fst (k, v) = fst (k, v') \<longrightarrow> snd (k, v) = snd (k, v')"
    by (rule bspec)
  then show ?thesis by simp
qed

lemma agree_Nil: "agree []"
  by (simp add: agree_def)

lemma mergeMembers_never_overwrites:
  assumes "Inr m1 \<in> set (map (\<lambda>ing. ParseStringMapAnnotation p sfx (Annotations ing)) ings)"
    and "Inr m2 \<in> set (map (\<lambda>ing. ParseStringMapAnnotation p sfx (Annotations ing)) ings)"
    and "(k, v) \<in> set m1" and "(k, v') \<in> set m2" and "v \<noteq> v'"
  shows "\<exists>err. mergeMembers p sfx conflict [] ings = Inl err"
proof (cases "mergeMembers p sfx conflict [] ings")
  case (Inl err)
  then show ?thesis by blast
next
  case (Inr merged')
  from mergeMembers_parsed [OF Inr] obtain raws where
    parsed: "map (\<lambda>ing. ParseStringMapAnnotation p sfx (Annotations ing)) ings = map Inr raws"
    by blast
  with assms(1,2) have "m1 \<in> set raws" "m2 \<in> set raws" by auto
  with assms(3,4) have "(k, v) \<in> set (concat raws)" "(k, v') \<in> set (concat raws)" by auto
  with assms(5) have "\<not> agree ([] @ concat raws)"
    using agreeD [of "concat raws" k v v'] by auto
  from mergeMembers_conflict [OF parsed _ _ agree_Nil this, of "[]" conflict]
  have "\<exists>err. mergeMembers p sfx conflict [] ings = Inl err" by auto
  with Inr show ?thesis by simp
qed

lemma tags_agree:
  assumes "parsedMaps t IngressSuffixTags = map Inr tagMaps" and "agree (concat tagMaps)"
  shows "\<exists>tags. buildLoadBalancerTags t = Inr tags \<and> distinct (map fst tags)
           \<and> set tags = set (concat tagMaps)"
  using mergeMembers_ok [OF assms(1) [unfolded parsedMaps_def], of "[]" "[]" ConflictingTag] assms(2)
  by (simp add: buildLoadBalancerTags_def)

lemma tags_differ:
  assumes "parsedMaps t IngressSuffixTags = map Inr tagMaps" and "\<not> agree (concat tagMaps)"
  shows "\<exists>k v v'. buildLoadBalancerTags t = Inl (ConflictingTag k v v') \<and> v \<noteq> v'
           \<and> (k, v) \<in> set (concat tagMaps) \<and> (k, v') \<in> set (concat tagMaps)"
  using mergeMembers_conflict [OF assms(1) [unfolded parsedMaps_def], of "[]" "[]" ConflictingTag]
    assms(2) agree_Nil
  by (simp add: buildLoadBalancerTags_def)

lemma tags_never_overwrite:
  assumes "Inr m1 \<in> set (parsedMaps t IngressSuffixTags)"
    and "Inr m2 \<in> set (parsedMaps t IngressSuffixTags)"
    and "(k, v) \<in> set m1" and "(k, v') \<in> set m2" and "v \<noteq> v'"
  shows "\<exists>err. buildLoadBalancerTags t = Inl err"
  using mergeMembers_never_overwrites [OF assms(1,2) [unfolded parsedMaps_def] assms(3,4,5)]
  by (simp add: buildLoadBalancerTags_def)

lemma attributes_agree:
  assumes "parsedMaps t IngressSuffixLoadBalancerAttributes = map Inr attrMaps"
    and "agree (concat attrMaps)"
  shows "\<exists>attributes. buildLoadBalancerAttributes t = Inr attributes
           \<and> distinct (map Key attributes)
           \<and> set attributes = (\<lambda>kv. \<lparr>Key = fst kv, Value = snd kv\<rparr>) ` set (concat attrMaps)"
proof -
  from mergeMembers_ok [OF assms(1) [unfolded parsedMaps_def], of "[]" "[]"
      ConflictingLoadBalancerAttribute] assms(2)
  obtain merged where run: "mergeMembers (annotationParser t) IngressSuffixLoadBalancerAttributes
        ConflictingLoadBalancerAttribute [] (Members (ingGroup t)) = Inr merged"
    and keys: "distinct (map fst merged)" and entries: "set merged = set (concat attrMaps)"
    by auto
  have keyeq: "map Key (map (\<lambda>(attrKey, attrValue). \<lparr>Key = attrKey, Value = attrValue\<rparr>) merged)
      = map fst merged"
    by (induction merged) auto
  have "distinct (map Key
      (map (\<lambda>(attrKey, attrValue). \<lparr>Key = attrKey, Value = attrValue\<rparr>) merged))"
    unfolding keyeq by (rule keys)
  moreover have "set (map (\<lambda>(attrKey, attrValue). \<lparr>Key = attrKey, Value = attrValue\<rparr>) merged)
      = (\<lambda>kv. \<lparr>Key = fst kv, Value = snd kv\<rparr>) ` set (concat attrMaps)"
    unfolding entries [symmetric] by (auto simp: case_prod_beta)
  ultimately show ?thesis
    using run by (simp add: buildLoadBalancerAttributes_def)
qed

lemma attributes_differ:
  assumes "parsedMaps t IngressSuffixLoadBalancerAttributes = map Inr attrMaps"
    and "\<not> agree (concat attrMaps)"
  shows "\<exists>k v v'. buildLoadBalancerAttributes t = Inl (ConflictingLoadBalancerAttribute k v v')
           \<and> v \<noteq> v' \<and> (k, v) \<in> set (concat attrMaps) \<and> (k, v') \<in> set (concat attrMaps)"
proof -
  from mergeMembers_conflict [OF assms(1) [unfolded parsedMaps_def], of "[]" "[]"
      ConflictingLoadBalancerAttribute] assms(2) agree_Nil
  obtain k v v' where "mergeMembers (annotationParser t) IngressSuffixLoadBalancerAttributes
        ConflictingLoadBalancerAttribute [] (Members (ingGroup t))
        = Inl (ConflictingLoadBalancerAttribute k v v')"
    and "v \<noteq> v'" and "(k, v) \<in> set (concat attrMaps)" and "(k, v') \<in> set (concat attrMaps)"
    by auto
  then show ?thesis
    by (auto simp: buildLoadBalancerAttributes_def)
qed

lemma attributes_never_overwrite:
  assumes "Inr m1 \<in> set (parsedMaps t IngressSuffixLoadBalancerAttributes)"
    and "Inr m2 \<in> set (parsedMaps t IngressSuffixLoadBalancerAttributes)"
    and "(k, v) \<in> set m1" and "(k, v') \<in> set m2" and "v \<noteq> v'"
  shows "\<exists>err. buildLoadBalancerAttributes t = Inl err"
  using mergeMembers_never_overwrites [OF assms(1,2) [unfolded parsedMaps_def] assms(3,4,5),
      of ConflictingLoadBalancerAttribute]
  by (auto simp: buildLoadBalancerAttributes_def)

text \<open>
  Claim C5. For the tags and for the load balancer attributes, let every member's map parse.
  When no key is given two different values, the merge succeeds and its result is the union
  of the members' maps: it holds exactly the entries that the members give, and no key
  twice. When some key is given two different values, the merge fails with a conflict that
  names a key and two different values that members give for it. No value ever overrides
  another: whenever two members give different values for a key, the field fails, whatever
  the order of the members and whatever the other members hold.
\<close>

theorem map_valued_fields:
  "(parsedMaps t IngressSuffixTags = map Inr tagMaps \<longrightarrow>
      (agree (concat tagMaps) \<longrightarrow>
         (\<exists>tags. buildLoadBalancerTags t = Inr tags \<and> distinct (map fst tags)
            \<and> set tags = set (concat tagMaps)))
      \<and> (\<not> agree (concat tagMaps) \<longrightarrow>
         (\<exists>k v v'. buildLoadBalancerTags t = Inl (ConflictingTag k v v') \<and> v \<noteq> v'
            \<and> (k, v) \<in> set (concat tagMaps) \<and> (k, v') \<in> set (concat tagMaps))))
   \<and> (Inr m1 \<in> set (parsedMaps t IngressSuffixTags)
        \<and> Inr m2 \<in> set (parsedMaps t IngressSuffixTags)
        \<and> (key, val) \<in> set m1 \<and> (key, val') \<in> set m2 \<and> val \<noteq> val' \<longrightarrow>
      (\<exists>err. buildLoadBalancerTags t = Inl err))
   \<and> (parsedMaps t IngressSuffixLoadBalancerAttributes = map Inr attrMaps \<longrightarrow>
      (agree (concat attrMaps) \<longrightarrow>
         (\<exists>attributes. buildLoadBalancerAttributes t = Inr attributes
            \<and> distinct (map Key attributes)
            \<and> set attributes = (\<lambda>kv. \<lparr>Key = fst kv, Value = snd kv\<rparr>) ` set (concat attrMaps)))
      \<and> (\<not> agree (concat attrMaps) \<longrightarrow>
         (\<exists>k v v'. buildLoadBalancerAttributes t = Inl (ConflictingLoadBalancerAttribute k v v')
            \<and> v \<noteq> v' \<and> (k, v) \<in> set (concat attrMaps) \<and> (k, v') \<in> set (concat attrMaps))))
   \<and> (Inr m1' \<in> set (parsedMaps t IngressSuffixLoadBalancerAttributes)
        \<and> Inr m2' \<in> set (parsedMaps t IngressSuffixLoadBalancerAttributes)
        \<and> (key, val) \<in> set m1' \<and> (key, val') \<in> set m2' \<and> val \<noteq> val' \<longrightarrow>
      (\<exists>err. buildLoadBalancerAttributes t = Inl err))"
  using tags_agree [of t tagMaps] tags_differ [of t tagMaps]
    tags_never_overwrite [of m1 t m2 key val val']
    attributes_agree [of t attrMaps] attributes_differ [of t attrMaps]
    attributes_never_overwrite [of m1' t m2' key val val']
  by blast

theorem map_valued_fields_witness:
  "buildLoadBalancerTags (exampleTask (explicitGroup ''g'')
      [noAnnotations\<lparr>srcAttributes := Inr [(''x'', ''1'')], srcTags := Inr [(''a'', ''1'')]\<rparr>,
       noAnnotations\<lparr>srcAttributes := Inr [(''x'', ''1''), (''y'', ''2'')],
                       srcTags := Inr [(''b'', ''2'')]\<rparr>] [])
     = Inr [(''a'', ''1''), (''b'', ''2'')]
   \<and> buildLoadBalancerAttributes (exampleTask (explicitGroup ''g'')
      [noAnnotations\<lparr>srcAttributes := Inr [(''x'', ''1'')], srcTags := Inr [(''a'', ''1'')]\<rparr>,
       noAnnotations\<lparr>srcAttributes := Inr [(''x'', ''1''), (''y'', ''2'')],
                       srcTags := Inr [(''b'', ''2'')]\<rparr>] [])
     = Inr [\<lparr>Key = ''x'', Value = ''1''\<rparr>, \<lparr>Key = ''y'', Value = ''2''\<rparr>]
   \<and> buildLoadBalancerTags (exampleTask (explicitGroup ''g'')
      [noAnnotations\<lparr>srcAttributes := Inr [(''x'', ''1'')], srcTags := Inr [(''a'', ''1'')]\<rparr>,
       noAnnotations\<lparr>srcAttributes := Inr [(''x'', ''9'')], srcTags := Inr [(''a'', ''2'')]\<rparr>] [])
     = Inl (ConflictingTag ''a'' ''1'' ''2'')
   \<and> buildLoadBalancerAttributes (exampleTask (explicitGroup ''g'')
      [noAnnotations\<lparr>srcAttributes := Inr [(''x'', ''1'')], srcTags := Inr [(''a'', ''1'')]\<rparr>,
       noAnnotations\<lparr>srcAttributes := Inr [(''x'', ''9'')], srcTags := Inr [(''a'', ''2'')]\<rparr>] [])
     = Inl (ConflictingLoadBalancerAttribute ''x'' ''1'' ''9'')"
proof -
  let ?t1 = "exampleTask (explicitGroup ''g'')
      [noAnnotations\<lparr>srcAttributes := Inr [(''x'', ''1'')], srcTags := Inr [(''a'', ''1'')]\<rparr>,
       noAnnotations\<lparr>srcAttributes := Inr [(''x'', ''1''), (''y'', ''2'')],
                       srcTags := Inr [(''b'', ''2'')]\<rparr>] []"
  let ?t2 = "exampleTask (explicitGroup ''g'')
      [noAnnotations\<lparr>srcAttributes := Inr [(''x'', ''1'')], srcTags := Inr [(''a'', ''1'')]\<rparr>,
       noAnnotations\<lparr>srcAttributes := Inr [(''x'', ''9'')], srcTags := Inr [(''a'', ''2'')]\<rparr>] []"
  note defs = parsedMaps_def exampleTask_def exampleParser_def noAnnotations_def
  have p1: "parsedMaps ?t1 IngressSuffixTags = map Inr [[(''a'', ''1'')], [(''b'', ''2'')]]"
    and q1: "parsedMaps ?t1 IngressSuffixLoadBalancerAttributes
      = map Inr [[(''x'', ''1'')], [(''x'', ''1''), (''y'', ''2'')]]"
    and p2: "parsedMaps ?t2 IngressSuffixTags = map Inr [[(''a'', ''1'')], [(''a'', ''2'')]]"
    and q2: "parsedMaps ?t2 IngressSuffixLoadBalancerAttributes
      = map Inr [[(''x'', ''1'')], [(''x'', ''9'')]]"
    by (simp_all add: defs)
  have a1: "agree (concat [[(''a'', ''1'')], [(''b'', ''2'')]])"
    and b1: "agree (concat [[(''x'', ''1'')], [(''x'', ''1''), (''y'', ''2'')]])"
    and a2: "\<not> agree (concat [[(''a'', ''1'')], [(''a'', ''2'')]])"
    and b2: "\<not> agree (concat [[(''x'', ''1'')], [(''x'', ''9'')]])"
    by (simp_all add: agree_def)
  note w1 = map_valued_fields [where t = ?t1 and tagMaps = "[[(''a'', ''1'')], [(''b'', ''2'')]]"
      and attrMaps = "[[(''x'', ''1'')], [(''x'', ''1''), (''y'', ''2'')]]"]
  note w2 = map_valued_fields [where t = ?t2 and tagMaps = "[[(''a'', ''1'')], [(''a'', ''2'')]]"
      and attrMaps = "[[(''x'', ''1'')], [(''x'', ''9'')]]"
      and ?m1.0 = "[(''a'', ''1'')]" and ?m2.0 = "[(''a'', ''2'')]"
      and key = "''a''" and val = "''1''" and val' = "''2''"]
  from w1 p1 a1 have e1: "\<exists>tags. buildLoadBalancerTags ?t1 = Inr tags \<and> distinct (map fst tags)
      \<and> set tags = set (concat [[(''a'', ''1'')], [(''b'', ''2'')]])"
    by blast
  from w1 q1 b1 have e2: "\<exists>attributes. buildLoadBalancerAttributes ?t1 = Inr attributes
      \<and> distinct (map Key attributes)
      \<and> set attributes = (\<lambda>kv. \<lparr>Key = fst kv, Value = snd kv\<rparr>)
            ` set (concat [[(''x'', ''1'')], [(''x'', ''1''), (''y'', ''2'')]])"
    by blast
  from w2 p2 a2 have e3: "\<exists>k v v'. buildLoadBalancerTags ?t2 = Inl (ConflictingTag k v v')
      \<and> v \<noteq> v' \<and> (k, v) \<in> set (concat [[(''a'', ''1'')], [(''a'', ''2'')]])
      \<and> (k, v') \<in> set (concat [[(''a'', ''1'')], [(''a'', ''2'')]])"
    by blast
  from w2 q2 b2 have e4: "\<exists>k v v'. buildLoadBalancerAttributes ?t2
        = Inl (ConflictingLoadBalancerAttribute k v v')
      \<and> v \<noteq> v' \<and> (k, v) \<in> set (concat [[(''x'', ''1'')], [(''x'', ''9'')]])
      \<and> (k, v') \<in> set (concat [[(''x'', ''1'')], [(''x'', ''9'')]])"
    by blast
  from w2 p2 have e5: "\<exists>err. buildLoadBalancerTags ?t2 = Inl err"
    by simp
  have c1: "buildLoadBalancerTags ?t1 = Inr [(''a'', ''1''), (''b'', ''2'')]"
    by code_simp
  have c2: "buildLoadBalancerAttributes ?t1
      = Inr [\<lparr>Key = ''x'', Value = ''1''\<rparr>, \<lparr>Key = ''y'', Value = ''2''\<rparr>]"
    by code_simp
  have c3: "buildLoadBalancerTags ?t2 = Inl (ConflictingTag ''a'' ''1'' ''2'')"
    by code_simp
  have c4: "buildLoadBalancerAttributes ?t2 = Inl (ConflictingLoadBalancerAttribute ''x'' ''1'' ''9'')"
    by code_simp
  from e1 e2 e3 e4 e5 c1 c2 c3 c4 show ?thesis by simp
qed

end
